theory Spec2Isabelle
  imports Complex_Main "HOL-Library.Word"
begin

section \<open>Python values, exceptions and the events of one request\<close>

text \<open>
  The program is \<^verbatim>\<open>src/backend/ai/main.py\<close>: an image normaliser
  (\<^verbatim>\<open>process_image\<close>), four pydantic models (\<^verbatim>\<open>Column\<close>, \<^verbatim>\<open>Table\<close>,
  \<^verbatim>\<open>Relationship\<close>, \<^verbatim>\<open>DatabaseSchema\<close>) and one request handler
  (\<^verbatim>\<open>generate_schema\<close>).

  Python \<^verbatim>\<open>bytes\<close> are lists of 8-bit words. An exception is a value; every fallible
  step returns \<open>exn + 'a\<close> with \<open>Inl\<close> the raised exception. Only subclasses of
  \<^verbatim>\<open>Exception\<close> are modelled, which is what \<^verbatim>\<open>except Exception\<close> catches.
  \<open>Raised c m\<close> is an exception of class \<open>c\<close> whose \<^verbatim>\<open>str()\<close> is \<open>m\<close>.
\<close>

type_synonym bytes = "8 word list"

datatype exn =
    TypeError string
  | IndexError string
  | ValidationExhaustion string
  | Raised string string

fun exn_str :: "exn \<Rightarrow> string" where
  "exn_str (TypeError m) = m"
| "exn_str (IndexError m) = m"
| "exn_str (ValidationExhaustion m) = m"
| "exn_str (Raised c m) = m"

text \<open>
  What \<^verbatim>\<open>getpixel\<close> can hand back: an integer for a single-band image, a tuple of
  integers for a multi-band one. The builtin \<^verbatim>\<open>sum\<close> iterates over its argument, so
  it raises \<^verbatim>\<open>TypeError\<close> on an integer.
\<close>

datatype pyval = PyInt int | PyTuple "int list"

fun py_sum :: "pyval \<Rightarrow> exn + int" where
  "py_sum (PyInt n) = Inl (TypeError ''int object is not iterable'')"
| "py_sum (PyTuple vs) = Inr (sum_list vs)"

subsection \<open>base64.b64encode\<close>

definition b64_alphabet :: string where
  "b64_alphabet = ''ABCDEFGHIJKLMNOPQRSTUVWXYZabcdefghijklmnopqrstuvwxyz0123456789+/''"

definition b64_char :: "nat \<Rightarrow> char" where
  "b64_char n = b64_alphabet ! (n mod 64)"

text \<open>
  Three bytes give four characters; one or two trailing bytes are padded with \<open>=\<close>.
  The result is ASCII, so the \<^verbatim>\<open>.decode("utf-8")\<close> that follows every call in the
  source is the identity and the model returns the string directly.
\<close>

fun b64encode :: "bytes \<Rightarrow> string" where
  "b64encode (a # b # c # rest) =
     (let n = unat a * 65536 + unat b * 256 + unat c
      in b64_char (n div 262144) # b64_char (n div 4096) # b64_char (n div 64) # b64_char n
         # b64encode rest)"
| "b64encode [a, b] =
     (let n = unat a * 65536 + unat b * 256
      in [b64_char (n div 262144), b64_char (n div 4096), b64_char (n div 64), CHR ''='']) "
| "b64encode [a] =
     (let n = unat a * 65536
      in [b64_char (n div 262144), b64_char (n div 4096), CHR ''='', CHR ''=''])"
| "b64encode [] = []"

section \<open>The imaging library, as far as process\_image uses it\<close>

text \<open>
  An image is its size and its bands, row-major. Mode \<^verbatim>\<open>L\<close> has one 8-bit band, mode
  \<^verbatim>\<open>RGB\<close> three; an image a decoder delivers in any other mode (palette, alpha,
  CMYK, 16-bit) keeps its mode name and its bands.

  The numeric parts of the library that the program does not fix are parameters, collected
  in the record \<open>pil\<close>: the file decoders behind \<^verbatim>\<open>Image.open\<close> (loading included),
  the conversions out of the other modes, the resampling filter of \<^verbatim>\<open>resize\<close>,
  \<^verbatim>\<open>ImageOps.autocontrast\<close> and the PNG encoder behind \<^verbatim>\<open>save\<close>.
\<close>

datatype mode = L | RGB

datatype image =
    LImage "nat \<times> nat" "nat list"
  | RGBImage "nat \<times> nat" "nat list" "nat list" "nat list"
  | OtherImage string "nat \<times> nat" "nat list list"

record pil =
  Image_open :: "bytes \<Rightarrow> exn + image"
  other_to_L :: "string \<Rightarrow> nat \<times> nat \<Rightarrow> nat list list \<Rightarrow> exn + nat list"
  other_to_RGB :: "string \<Rightarrow> nat \<times> nat \<Rightarrow> nat list list \<Rightarrow> exn + nat list \<times> nat list \<times> nat list"
  resample :: "nat \<times> nat \<Rightarrow> nat list \<Rightarrow> nat \<times> nat \<Rightarrow> nat \<times> nat \<Rightarrow> nat"
  ImageOps_autocontrast :: "image \<Rightarrow> exn + image"
  save_PNG :: "image \<Rightarrow> exn + bytes"

text \<open>The library's luma transform for RGB to L, in its fixed-point form.\<close>

definition luma :: "nat \<Rightarrow> nat \<Rightarrow> nat \<Rightarrow> nat" where
  "luma r g b = (r * 19595 + g * 38470 + b * 7471 + 32768) div 65536"

fun convert :: "pil \<Rightarrow> mode \<Rightarrow> image \<Rightarrow> exn + image" where
  "convert p L (LImage sz d) = Inr (LImage sz d)"
| "convert p L (RGBImage sz r g b) = Inr (LImage sz (map (\<lambda>(x, y, z). luma x y z) (zip r (zip g b))))"
| "convert p L (OtherImage m sz bs) =
     (case other_to_L p m sz bs of Inl e \<Rightarrow> Inl e | Inr d \<Rightarrow> Inr (LImage sz d))"
| "convert p RGB (LImage sz d) = Inr (RGBImage sz d d d)"
| "convert p RGB (RGBImage sz r g b) = Inr (RGBImage sz r g b)"
| "convert p RGB (OtherImage m sz bs) =
     (case other_to_RGB p m sz bs of Inl e \<Rightarrow> Inl e | Inr (r, g, b) \<Rightarrow> Inr (RGBImage sz r g b))"

text \<open>
  \<^verbatim>\<open>resize\<close> keeps the mode and works band by band: every pixel of the target is
  what the resampling filter computes for it from the source band.
\<close>

definition resize_band :: "pil \<Rightarrow> nat \<times> nat \<Rightarrow> nat \<times> nat \<Rightarrow> nat list \<Rightarrow> nat list" where
  "resize_band p src dst d =
     map (\<lambda>i. resample p src d dst (i mod fst dst, i div fst dst)) [0 ..< fst dst * snd dst]"

fun resize :: "pil \<Rightarrow> nat \<times> nat \<Rightarrow> image \<Rightarrow> image" where
  "resize p dst (LImage sz d) = LImage dst (resize_band p sz dst d)"
| "resize p dst (RGBImage sz r g b) =
     RGBImage dst (resize_band p sz dst r) (resize_band p sz dst g) (resize_band p sz dst b)"
| "resize p dst (OtherImage m sz bs) = OtherImage m dst (map (resize_band p sz dst) bs)"

text \<open>
  \<^verbatim>\<open>getpixel\<close>: out of range is \<^verbatim>\<open>IndexError\<close>; a single-band image gives the
  value itself, a multi-band image the tuple of its band values.
\<close>

definition band_at :: "nat list \<Rightarrow> nat \<Rightarrow> exn + int" where
  "band_at d i = (if i < length d then Inr (int (d ! i)) else Inl (IndexError ''image index out of range''))"

fun bands_at :: "nat list list \<Rightarrow> nat \<Rightarrow> exn + int list" where
  "bands_at [] i = Inr []"
| "bands_at (d # ds) i =
     (case band_at d i of Inl e \<Rightarrow> Inl e
      | Inr v \<Rightarrow> (case bands_at ds i of Inl e \<Rightarrow> Inl e | Inr vs \<Rightarrow> Inr (v # vs)))"

definition in_image :: "nat \<times> nat \<Rightarrow> nat \<times> nat \<Rightarrow> bool" where
  "in_image sz xy = (fst xy < fst sz \<and> snd xy < snd sz)"

fun getpixel :: "image \<Rightarrow> nat \<times> nat \<Rightarrow> exn + pyval" where
  "getpixel (LImage sz d) xy =
     (if in_image sz xy
      then (case band_at d (snd xy * fst sz + fst xy) of Inl e \<Rightarrow> Inl e | Inr v \<Rightarrow> Inr (PyInt v))
      else Inl (IndexError ''image index out of range''))"
| "getpixel (RGBImage sz r g b) xy =
     (if in_image sz xy
      then (case bands_at [r, g, b] (snd xy * fst sz + fst xy) of
              Inl e \<Rightarrow> Inl e | Inr vs \<Rightarrow> Inr (PyTuple vs))
      else Inl (IndexError ''image index out of range''))"
| "getpixel (OtherImage m sz bs) xy =
     (if in_image sz xy
      then (case bands_at bs (snd xy * fst sz + fst xy) of
              Inl e \<Rightarrow> Inl e
            | Inr [v] \<Rightarrow> Inr (PyInt v)
            | Inr vs \<Rightarrow> Inr (PyTuple vs))
      else Inl (IndexError ''image index out of range''))"

text \<open>\<^verbatim>\<open>ImageOps.invert\<close> maps every value \<open>v\<close> of an L or RGB image to \<open>255 - v\<close>.\<close>

fun ImageOps_invert :: "image \<Rightarrow> exn + image" where
  "ImageOps_invert (LImage sz d) = Inr (LImage sz (map (\<lambda>v. 255 - v) d))"
| "ImageOps_invert (RGBImage sz r g b) =
     Inr (RGBImage sz (map (\<lambda>v. 255 - v) r) (map (\<lambda>v. 255 - v) g) (map (\<lambda>v. 255 - v) b))"
| "ImageOps_invert (OtherImage m sz bs) = Inl (Raised ''OSError'' ''not supported for this image mode'')"

section \<open>process\_image\<close>

text \<open>
  The log lines of the program, as events. \<open>LogDark\<close> is the line
  \<^verbatim>\<open>Dark mode detected. Inverting.\<close> of \<^verbatim>\<open>process_image\<close>.
\<close>

datatype log_line = LogDark | LogStage1 | LogStage2 | LogSuccess nat | LogError string

text \<open>
  The body of the \<^verbatim>\<open>try\<close> block, statement by statement. It returns the log
  lines written so far together with the value or the exception.
\<close>

definition process_image_try :: "pil \<Rightarrow> bytes \<Rightarrow> log_line list \<times> (exn + string)" where
  "process_image_try p image_bytes =
     (case Image_open p image_bytes of Inl e \<Rightarrow> ([], Inl e) | Inr opened \<Rightarrow>
      case convert p RGB opened of Inl e \<Rightarrow> ([], Inl e) | Inr img \<Rightarrow>
      case convert p L img of Inl e \<Rightarrow> ([], Inl e) | Inr gray \<Rightarrow>
      case getpixel (resize p (1, 1) gray) (0, 0) of Inl e \<Rightarrow> ([], Inl e) | Inr px \<Rightarrow>
      case py_sum px of Inl e \<Rightarrow> ([], Inl e) | Inr brightness \<Rightarrow>
        let dark = (brightness < 128);
            logged = (if dark then [LogDark] else [])
        in (case (if dark then ImageOps_invert img else Inr img) of
              Inl e \<Rightarrow> (logged, Inl e) | Inr img2 \<Rightarrow>
            case ImageOps_autocontrast p img2 of Inl e \<Rightarrow> (logged, Inl e) | Inr img3 \<Rightarrow>
            case save_PNG p img3 of Inl e \<Rightarrow> (logged, Inl e) | Inr buffer \<Rightarrow>
              (logged, Inr (b64encode buffer))))"

text \<open>The \<^verbatim>\<open>except Exception\<close> handler returns the encoding of the input bytes.\<close>

definition process_image :: "pil \<Rightarrow> bytes \<Rightarrow> log_line list \<times> (exn + string)" where
  "process_image p image_bytes =
     (case process_image_try p image_bytes of
        (logged, Inr s) \<Rightarrow> (logged, Inr s)
      | (logged, Inl e) \<Rightarrow> (logged, Inr (b64encode image_bytes)))"

section \<open>The schema models and their validation\<close>

text \<open>
  The structured-generation stage parses the model's JSON text and validates it against
  \<^verbatim>\<open>DatabaseSchema\<close>. A parsed JSON value is a \<open>json\<close>; \<open>JObj\<close> holds the members of
  a parsed object, whose keys are distinct.
\<close>

datatype json =
    JNull
  | JBool bool
  | JNum rat
  | JStr string
  | JArr "json list"
  | JObj "(string \<times> json) list"

datatype loc = Key string | Index nat

datatype verr_type =
    Missing | StringType | BoolType | BoolParsing | LiteralError | ListType | ModelType | JsonInvalid

type_synonym verr = "loc list \<times> verr_type"

text \<open>An error found below a key or a list index is reported with that location in front.\<close>

definition at_loc :: "loc \<Rightarrow> verr + 'a \<Rightarrow> verr + 'a" where
  "at_loc l r = (case r of Inl (ls, t) \<Rightarrow> Inl (l # ls, t) | Inr v \<Rightarrow> Inr v)"

text \<open>
  The field types of the four classes, validated from JSON in the library's default (lax)
  mode: \<^verbatim>\<open>str\<close> takes a JSON string only; \<^verbatim>\<open>bool\<close> takes a JSON boolean, the numbers 0
  and 1, and a fixed list of words compared without regard to ASCII case;
  \<^verbatim>\<open>Literal[...]\<close> takes exactly its members.
\<close>

definition validate_str :: "json \<Rightarrow> verr + string" where
  "validate_str j = (case j of JStr s \<Rightarrow> Inr s | _ \<Rightarrow> Inl ([], StringType))"

definition ascii_lower :: "char \<Rightarrow> char" where
  "ascii_lower c =
     (case map_of (zip ''ABCDEFGHIJKLMNOPQRSTUVWXYZ'' ''abcdefghijklmnopqrstuvwxyz'') c of
        Some l \<Rightarrow> l | None \<Rightarrow> c)"

definition bool_true_words :: "string list" where
  "bool_true_words = [''1'', ''on'', ''t'', ''true'', ''y'', ''yes'']"

definition bool_false_words :: "string list" where
  "bool_false_words = [''0'', ''off'', ''f'', ''false'', ''n'', ''no'']"

definition validate_bool :: "json \<Rightarrow> verr + bool" where
  "validate_bool j =
     (case j of
        JBool b \<Rightarrow> Inr b
      | JNum n \<Rightarrow> (if n = 0 then Inr False else if n = 1 then Inr True else Inl ([], BoolParsing))
      | JStr s \<Rightarrow>
          (if map ascii_lower s \<in> set bool_true_words then Inr True
           else if map ascii_lower s \<in> set bool_false_words then Inr False
           else Inl ([], BoolParsing))
      | _ \<Rightarrow> Inl ([], BoolType))"

definition validate_literal :: "string list \<Rightarrow> json \<Rightarrow> verr + string" where
  "validate_literal allowed j =
     (case j of
        JStr s \<Rightarrow> (if s \<in> set allowed then Inr s else Inl ([], LiteralError))
      | _ \<Rightarrow> Inl ([], LiteralError))"

text \<open>A field without a default is required; a field with a default takes it when the key is absent.\<close>

definition required :: "(string \<times> json) list \<Rightarrow> string \<Rightarrow> (json \<Rightarrow> verr + 'a) \<Rightarrow> verr + 'a" where
  "required kvs k v =
     (case map_of kvs k of None \<Rightarrow> Inl ([Key k], Missing) | Some j \<Rightarrow> at_loc (Key k) (v j))"

definition with_default :: "(string \<times> json) list \<Rightarrow> string \<Rightarrow> (json \<Rightarrow> verr + 'a) \<Rightarrow> 'a \<Rightarrow> verr + 'a" where
  "with_default kvs k v d =
     (case map_of kvs k of None \<Rightarrow> Inr d | Some j \<Rightarrow> at_loc (Key k) (v j))"

fun validate_items :: "(json \<Rightarrow> verr + 'a) \<Rightarrow> nat \<Rightarrow> json list \<Rightarrow> verr + 'a list" where
  "validate_items v i [] = Inr []"
| "validate_items v i (x # xs) =
     (case at_loc (Index i) (v x) of Inl e \<Rightarrow> Inl e
      | Inr y \<Rightarrow> (case validate_items v (Suc i) xs of Inl e \<Rightarrow> Inl e | Inr ys \<Rightarrow> Inr (y # ys)))"

definition validate_list :: "(json \<Rightarrow> verr + 'a) \<Rightarrow> json \<Rightarrow> verr + 'a list" where
  "validate_list v j = (case j of JArr xs \<Rightarrow> validate_items v 0 xs | _ \<Rightarrow> Inl ([], ListType))"

subsection \<open>Column, Table, Relationship, DatabaseSchema\<close>

definition SQLiteType :: "string list" where
  "SQLiteType = [''UUID'', ''TEXT'', ''INTEGER'', ''BOOLEAN'', ''TIMESTAMP'', ''JSON'']"

definition RelationshipType :: "string list" where
  "RelationshipType = [''1:1'', ''1:N'', ''N:N'']"

record Column =
  col_name :: string
  col_type :: string
  is_primary_key :: bool
  is_foreign_key :: bool

record Table =
  tbl_name :: string
  columns :: "Column list"

record Relationship =
  from_table :: string
  from_column :: string
  to_table :: string
  to_column :: string
  rel_type :: string

record DatabaseSchema =
  tables :: "Table list"
  relationships :: "Relationship list"

definition validate_Column :: "json \<Rightarrow> verr + Column" where
  "validate_Column j =
     (case j of
        JObj kvs \<Rightarrow>
          (case required kvs ''name'' validate_str of Inl e \<Rightarrow> Inl e | Inr n \<Rightarrow>
           case required kvs ''type'' (validate_literal SQLiteType) of Inl e \<Rightarrow> Inl e | Inr t \<Rightarrow>
           case with_default kvs ''is_primary_key'' validate_bool False of Inl e \<Rightarrow> Inl e | Inr pk \<Rightarrow>
           case with_default kvs ''is_foreign_key'' validate_bool False of Inl e \<Rightarrow> Inl e | Inr fk \<Rightarrow>
             Inr \<lparr>col_name = n, col_type = t, is_primary_key = pk, is_foreign_key = fk\<rparr>)
      | _ \<Rightarrow> Inl ([], ModelType))"

definition validate_Table :: "json \<Rightarrow> verr + Table" where
  "validate_Table j =
     (case j of
        JObj kvs \<Rightarrow>
          (case required kvs ''name'' validate_str of Inl e \<Rightarrow> Inl e | Inr n \<Rightarrow>
           case required kvs ''columns'' (validate_list validate_Column) of Inl e \<Rightarrow> Inl e | Inr cs \<Rightarrow>
             Inr \<lparr>tbl_name = n, columns = cs\<rparr>)
      | _ \<Rightarrow> Inl ([], ModelType))"

definition validate_Relationship :: "json \<Rightarrow> verr + Relationship" where
  "validate_Relationship j =
     (case j of
        JObj kvs \<Rightarrow>
          (case required kvs ''from_table'' validate_str of Inl e \<Rightarrow> Inl e | Inr ft \<Rightarrow>
           case required kvs ''from_column'' validate_str of Inl e \<Rightarrow> Inl e | Inr fc \<Rightarrow>
           case required kvs ''to_table'' validate_str of Inl e \<Rightarrow> Inl e | Inr tt \<Rightarrow>
           case required kvs ''to_column'' validate_str of Inl e \<Rightarrow> Inl e | Inr tc \<Rightarrow>
           case with_default kvs ''type'' (validate_literal RelationshipType) ''1:N'' of
             Inl e \<Rightarrow> Inl e | Inr t \<Rightarrow>
             Inr \<lparr>from_table = ft, from_column = fc, to_table = tt, to_column = tc, rel_type = t\<rparr>)
      | _ \<Rightarrow> Inl ([], ModelType))"

definition validate_DatabaseSchema :: "json \<Rightarrow> verr + DatabaseSchema" where
  "validate_DatabaseSchema j =
     (case j of
        JObj kvs \<Rightarrow>
          (case required kvs ''tables'' (validate_list validate_Table) of Inl e \<Rightarrow> Inl e | Inr ts \<Rightarrow>
           case required kvs ''relationships'' (validate_list validate_Relationship) of
             Inl e \<Rightarrow> Inl e | Inr rs \<Rightarrow>
             Inr \<lparr>tables = ts, relationships = rs\<rparr>)
      | _ \<Rightarrow> Inl ([], ModelType))"

section \<open>The two model calls\<close>

text \<open>
  A chat request carries a model identifier, the messages and, for the vision call, a token
  limit. The content of a message is a text or a list of parts (text and image URL).
\<close>

datatype part = TextPart string | ImageUrlPart string

datatype msg_content = Text string | Parts "part list"

record message =
  role :: string
  content :: msg_content

record request =
  model :: string
  messages :: "message list"
  max_tokens :: "nat option"

text \<open>What the text-generation model sends back: JSON text, parsed, or text that is not JSON.\<close>

datatype completion = Json json | NotJson string

definition validate_completion :: "completion \<Rightarrow> verr + DatabaseSchema" where
  "validate_completion out =
     (case out of Json j \<Rightarrow> validate_DatabaseSchema j | NotJson t \<Rightarrow> Inl ([], JsonInvalid))"

text \<open>
  The events of one request, in order: log lines and the calls that reach the two models.
\<close>

datatype event = Log log_line | VisionCall request | BrainCall request

fun is_VisionCall :: "event \<Rightarrow> bool" where
  "is_VisionCall (VisionCall r) = True"
| "is_VisionCall e = False"

fun is_BrainCall :: "event \<Rightarrow> bool" where
  "is_BrainCall (BrainCall r) = True"
| "is_BrainCall e = False"

definition vision_calls :: "event list \<Rightarrow> nat" where
  "vision_calls tr = length (filter is_VisionCall tr)"

definition brain_calls :: "event list \<Rightarrow> nat" where
  "brain_calls tr = length (filter is_BrainCall tr)"

text \<open>The image URLs that the vision calls of a trace carry.\<close>

fun part_urls :: "part \<Rightarrow> string list" where
  "part_urls (ImageUrlPart u) = [u]"
| "part_urls (TextPart t) = []"

fun content_urls :: "msg_content \<Rightarrow> string list" where
  "content_urls (Parts ps) = concat (map part_urls ps)"
| "content_urls (Text t) = []"

definition request_urls :: "request \<Rightarrow> string list" where
  "request_urls req = concat (map (\<lambda>m. content_urls (content m)) (messages req))"

fun event_vision_urls :: "event \<Rightarrow> string list" where
  "event_vision_urls (VisionCall req) = request_urls req"
| "event_vision_urls e = []"

definition vision_urls :: "event list \<Rightarrow> string list" where
  "vision_urls tr = concat (map event_vision_urls tr)"

text \<open>
  The environment of a request: the two model identifiers of \<^verbatim>\<open>Settings\<close>, the imaging
  library, and the two upstream models as the patched client reaches them. The vision model
  answers with the message contents of its choices (a content may be \<^verbatim>\<open>None\<close>). The
  text-generation model is a double that may answer differently at each invocation: it
  gets the number of invocations before this one. \<open>with_schema\<close>, \<open>reask\<close> and
  \<open>describe\<close> are the texts the structured-output library writes: the schema it adds to
  the messages, the corrective exchange after a failed validation, and the message of the
  terminal failure.
\<close>

record Settings =
  VISION_MODEL_ID :: string
  BRAIN_MODEL_ID :: string

record env =
  settings :: Settings
  imaging :: pil
  vision_model :: "request \<Rightarrow> exn + string option list"
  brain_model :: "nat \<Rightarrow> request \<Rightarrow> exn + completion"
  with_schema :: "message list \<Rightarrow> message list"
  reask :: "completion \<Rightarrow> verr \<Rightarrow> message list"
  describe :: "verr \<Rightarrow> string"

text \<open>
  Modelled from the spec: the retry loop of the structured-generation call, which lives in
  the structured-output library and not in the repository (the program only passes
  \<^verbatim>\<open>response_model=DatabaseSchema\<close> and \<^verbatim>\<open>max_retries=2\<close>). After the spec's section
  4.3 and 7: the output of each attempt is validated against the schema model; when it
  fails, a corrective exchange carrying the validation error is appended and the call is
  reissued at once, up to \<open>retries\<close> more times; a failing upstream call is reissued within
  the same bound; past the bound the request fails, with validation exhaustion when the
  last output was invalid.
\<close>

fun structured_attempts ::
  "env \<Rightarrow> nat \<Rightarrow> request \<Rightarrow> event list \<Rightarrow> event list \<times> (exn + DatabaseSchema)" where
  "structured_attempts en 0 req tr =
     (case brain_model en (brain_calls tr) req of
        Inl e \<Rightarrow> (tr @ [BrainCall req], Inl e)
      | Inr out \<Rightarrow>
          (case validate_completion out of
             Inr s \<Rightarrow> (tr @ [BrainCall req], Inr s)
           | Inl ve \<Rightarrow> (tr @ [BrainCall req], Inl (ValidationExhaustion (describe en ve)))))"
| "structured_attempts en (Suc r) req tr =
     (case brain_model en (brain_calls tr) req of
        Inl e \<Rightarrow> structured_attempts en r req (tr @ [BrainCall req])
      | Inr out \<Rightarrow>
          (case validate_completion out of
             Inr s \<Rightarrow> (tr @ [BrainCall req], Inr s)
           | Inl ve \<Rightarrow>
               structured_attempts en r
                 (req\<lparr>messages := messages req @ reask en out ve\<rparr>) (tr @ [BrainCall req])))"

text \<open>
  Modelled from the spec: the patched \<^verbatim>\<open>create\<close> call with a response model, which is
  the structured-output library and not the repository: it adds the schema to the messages
  and runs the attempts.
\<close>

definition create_structured ::
  "env \<Rightarrow> nat \<Rightarrow> request \<Rightarrow> event list \<Rightarrow> event list \<times> (exn + DatabaseSchema)" where
  "create_structured en max_retries req tr =
     structured_attempts en max_retries (req\<lparr>messages := with_schema en (messages req)\<rparr>) tr"

section \<open>generate\_schema\<close>

record UploadFile =
  content_type :: "string option"
  file_bytes :: bytes

datatype response = Ok DatabaseSchema | HTTPException nat string

definition allowed_content_types :: "string list" where
  "allowed_content_types = [''image/jpeg'', ''image/png'', ''image/webp'']"

definition accepted :: "UploadFile \<Rightarrow> bool" where
  "accepted file =
     (case content_type file of None \<Rightarrow> False | Some ct \<Rightarrow> ct \<in> set allowed_content_types)"

text \<open>An f-string writes \<^verbatim>\<open>None\<close> as the text \<open>None\<close>.\<close>

definition py_format :: "string option \<Rightarrow> string" where
  "py_format v = (case v of None \<Rightarrow> ''None'' | Some s \<Rightarrow> s)"

definition data_url_of :: "string \<Rightarrow> string" where
  "data_url_of b64_img = ''data:image/png;base64,'' @ b64_img"

definition vision_request :: "env \<Rightarrow> string \<Rightarrow> request" where
  "vision_request en data_url =
     \<lparr>model = VISION_MODEL_ID (settings en),
      messages =
        [\<lparr>role = ''user'',
          content = Parts
            [TextPart ''List all tables, columns (with inferred types), and relationships in this ER diagram.'',
             ImageUrlPart data_url]\<rparr>],
      max_tokens = Some 2000\<rparr>"

definition brain_request :: "env \<Rightarrow> string option \<Rightarrow> request" where
  "brain_request en description =
     \<lparr>model = BRAIN_MODEL_ID (settings en),
      messages =
        [\<lparr>role = ''system'',
          content = Text ''You are a senior Data Engineer. Extract the database schema strictly.''\<rparr>,
         \<lparr>role = ''user'',
          content = Text (''Create the schema based on this description:''
                          @ [CHR 0x0A, CHR 0x0A] @ py_format description)\<rparr>],
      max_tokens = None\<rparr>"

text \<open>The body of the \<^verbatim>\<open>try\<close> block of the handler, statement by statement.\<close>

definition generate_schema_try :: "env \<Rightarrow> UploadFile \<Rightarrow> event list \<times> (exn + DatabaseSchema)" where
  "generate_schema_try en file =
     (let content = file_bytes file
      in case process_image (imaging en) content of
           (logged, Inl e) \<Rightarrow> (map Log logged, Inl e)
         | (logged, Inr b64_img) \<Rightarrow>
             let data_url = data_url_of b64_img;
                 req1 = vision_request en data_url;
                 tr1 = map Log logged @ [Log LogStage1, VisionCall req1]
             in (case vision_model en req1 of
                   Inl e \<Rightarrow> (tr1, Inl e)
                 | Inr [] \<Rightarrow> (tr1, Inl (IndexError ''list index out of range''))
                 | Inr (description # others) \<Rightarrow>
                     (case create_structured en 2 (brain_request en description)
                             (tr1 @ [Log LogStage2]) of
                        (tr2, Inl e) \<Rightarrow> (tr2, Inl e)
                      | (tr2, Inr schema) \<Rightarrow>
                          (tr2 @ [Log (LogSuccess (length (tables schema)))], Inr schema))))"

definition generate_schema :: "env \<Rightarrow> UploadFile \<Rightarrow> event list \<times> response" where
  "generate_schema en file =
     (if \<not> accepted file then ([], HTTPException 400 ''Invalid file type.'')
      else (case generate_schema_try en file of
              (tr, Inr schema) \<Rightarrow> (tr, Ok schema)
            | (tr, Inl e) \<Rightarrow>
                (tr @ [Log (LogError (exn_str e))],
                 HTTPException 500 (''Processing failed: '' @ exn_str e))))"

section \<open>Concrete inputs\<close>

text \<open>
  An imaging library for examples: the decoder is given, a 1x1 target pixel is the mean of
  the source band, the contrast stretch is the identity and the encoder writes the PNG
  signature only.
\<close>

definition mean_resample :: "nat \<times> nat \<Rightarrow> nat list \<Rightarrow> nat \<times> nat \<Rightarrow> nat \<times> nat \<Rightarrow> nat" where
  "mean_resample src d dst xy = sum_list d div max 1 (length d)"

definition example_pil :: "(bytes \<Rightarrow> exn + image) \<Rightarrow> pil" where
  "example_pil decoder =
     \<lparr>Image_open = decoder,
      other_to_L = (\<lambda>m sz bs. Inl (Raised ''ValueError'' ''conversion not supported'')),
      other_to_RGB = (\<lambda>m sz bs. Inl (Raised ''ValueError'' ''conversion not supported'')),
      resample = mean_resample,
      ImageOps_autocontrast = Inr,
      save_PNG = (\<lambda>img. Inr [0x89, 0x50, 0x4E, 0x47])\<rparr>"

text \<open>A decodable image of one black pixel, and a decoder that identifies no image.\<close>

definition black_pixel :: image where
  "black_pixel = RGBImage (1, 1) [0] [0] [0]"

definition dark_pil :: pil where
  "dark_pil = example_pil (\<lambda>bs. Inr black_pixel)"

definition corrupt_pil :: pil where
  "corrupt_pil = example_pil (\<lambda>bs. Inl (Raised ''UnidentifiedImageError'' ''cannot identify image file''))"

text \<open>The first eight bytes of a PNG file, standing for the uploaded file.\<close>

definition dark_png :: bytes where
  "dark_png = [0x89, 0x50, 0x4E, 0x47, 0x0D, 0x0A, 0x1A, 0x0A]"

text \<open>
  A model output: a table with two columns, the second without its two flags, and a
  relationship without its type. Then two outputs with a type outside the enumerations.
\<close>

definition id_column_json :: "(string \<times> json) list" where
  "id_column_json =
     [(''name'', JStr ''id''), (''type'', JStr ''UUID''),
      (''is_primary_key'', JBool True), (''is_foreign_key'', JBool False)]"

definition email_column_json :: "(string \<times> json) list" where
  "email_column_json = [(''name'', JStr ''email''), (''type'', JStr ''TEXT'')]"

definition orders_relationship_json :: "(string \<times> json) list" where
  "orders_relationship_json =
     [(''from_table'', JStr ''orders''), (''from_column'', JStr ''user_id''),
      (''to_table'', JStr ''users''), (''to_column'', JStr ''id'')]"

definition users_schema_json :: "(string \<times> json) list" where
  "users_schema_json =
     [(''tables'',
         JArr [JObj [(''name'', JStr ''users''),
                     (''columns'', JArr [JObj id_column_json, JObj email_column_json])]]),
      (''relationships'', JArr [JObj orders_relationship_json])]"

definition users_schema :: DatabaseSchema where
  "users_schema =
     \<lparr>tables =
        [\<lparr>tbl_name = ''users'',
          columns =
            [\<lparr>col_name = ''id'', col_type = ''UUID'', is_primary_key = True, is_foreign_key = False\<rparr>,
             \<lparr>col_name = ''email'', col_type = ''TEXT'', is_primary_key = False,
              is_foreign_key = False\<rparr>]\<rparr>],
      relationships =
        [\<lparr>from_table = ''orders'', from_column = ''user_id'', to_table = ''users'',
          to_column = ''id'', rel_type = ''1:N''\<rparr>]\<rparr>"

definition float_column_json :: "(string \<times> json) list" where
  "float_column_json = [(''name'', JStr ''price''), (''type'', JStr ''FLOAT'')]"

definition many_relationship_json :: "(string \<times> json) list" where
  "many_relationship_json = orders_relationship_json @ [(''type'', JStr ''many'')]"

text \<open>
  An environment for examples, given the two model doubles: the default model identifiers
  of \<^verbatim>\<open>Settings\<close>, no schema text added, a fixed corrective message and a fixed failure
  message. Then three uploads, and doubles: a vision model that describes the diagram, one
  that fails, one that answers without choices, and text-generation models that always answer with an empty object (an
  invalid shape), with the users schema, or fail.
\<close>

definition example_env ::
  "(request \<Rightarrow> exn + string option list) \<Rightarrow> (nat \<Rightarrow> request \<Rightarrow> exn + completion) \<Rightarrow> env" where
  "example_env vis brain =
     \<lparr>settings = \<lparr>VISION_MODEL_ID = ''Qwen/Qwen2.5-VL-7B-Instruct'',
                  BRAIN_MODEL_ID = ''Qwen/Qwen2.5-Coder-7B-Instruct''\<rparr>,
      imaging = dark_pil,
      vision_model = vis,
      brain_model = brain,
      with_schema = (\<lambda>ms. ms),
      reask = (\<lambda>out ve. [\<lparr>role = ''user'', content = Text ''Correct your JSON response''\<rparr>]),
      describe = (\<lambda>ve. ''validation failed'')\<rparr>"

definition png_upload :: UploadFile where
  "png_upload = \<lparr>content_type = Some ''image/png'', file_bytes = dark_png\<rparr>"

definition jpeg_upload :: UploadFile where
  "jpeg_upload = \<lparr>content_type = Some ''image/jpeg'', file_bytes = [0xFF, 0xD8, 0xFF, 0xE0]\<rparr>"

definition text_upload :: UploadFile where
  "text_upload = \<lparr>content_type = Some ''text/plain'', file_bytes = [0x68, 0x69]\<rparr>"

definition describing_vision :: "request \<Rightarrow> exn + string option list" where
  "describing_vision req = Inr [Some ''users table with id (uuid, pk) and email (text)'']"

definition failing_vision :: "request \<Rightarrow> exn + string option list" where
  "failing_vision req = Inl (Raised ''APIConnectionError'' ''Connection error.'')"

definition silent_vision :: "request \<Rightarrow> exn + string option list" where
  "silent_vision req = Inr []"

definition invalid_brain :: "nat \<Rightarrow> request \<Rightarrow> exn + completion" where
  "invalid_brain k req = Inr (Json (JObj []))"

definition users_brain :: "nat \<Rightarrow> request \<Rightarrow> exn + completion" where
  "users_brain k req = Inr (Json (JObj users_schema_json))"

definition failing_brain :: "nat \<Rightarrow> request \<Rightarrow> exn + completion" where
  "failing_brain k req = Inl (Raised ''APIConnectionError'' ''Connection error.'')"

section \<open>Properties of process\_image\<close>

lemma convert_L_is_LImage: "convert p L img = Inr g \<Longrightarrow> \<exists>sz d. g = LImage sz d"
  by (cases img) (auto split: sum.splits)

lemma getpixel_LImage: "getpixel (LImage sz d) xy = Inr v \<Longrightarrow> \<exists>n. v = PyInt n"
  by (auto split: if_splits sum.splits)

lemma brightness_check_raises:
  assumes "convert p L img = Inr g" and "getpixel (resize p dst g) xy = Inr v"
  shows "\<exists>m. py_sum v = Inl (TypeError m)"
proof -
  from assms(1) obtain sz d where "g = LImage sz d"
    using convert_L_is_LImage by blast
  with assms(2) obtain n where "v = PyInt n"
    using getpixel_LImage by fastforce
  then show ?thesis by simp
qed

lemma process_image_try_raises: "\<exists>e. process_image_try p bs = ([], Inl e)"
proof (cases "Image_open p bs")
  case (Inl e)
  then show ?thesis by (simp add: process_image_try_def)
next
  case opened: (Inr im0)
  show ?thesis
  proof (cases "convert p RGB im0")
    case (Inl e)
    with opened show ?thesis by (simp add: process_image_try_def)
  next
    case rgb: (Inr im1)
    show ?thesis
    proof (cases "convert p L im1")
      case (Inl e)
      with opened rgb show ?thesis by (simp add: process_image_try_def)
    next
      case gray: (Inr g)
      show ?thesis
      proof (cases "getpixel (resize p (1, 1) g) (0, 0)")
        case (Inl e)
        with opened rgb gray show ?thesis by (simp add: process_image_try_def)
      next
        case (Inr v)
        with gray obtain m where "py_sum v = Inl (TypeError m)"
          using brightness_check_raises by blast
        with opened rgb gray Inr show ?thesis by (simp add: process_image_try_def)
      qed
    qed
  qed
qed

lemma process_image_fallback: "process_image p bs = ([], Inr (b64encode bs))"
proof -
  obtain e where "process_image_try p bs = ([], Inl e)"
    using process_image_try_raises by blast
  then show ?thesis by (simp add: process_image_def)
qed

lemma b64encode_dark_png: "b64encode dark_png = ''iVBORw0KGgo=''"
  by (simp add: dark_png_def b64_char_def b64_alphabet_def)

lemma dark_pixel_luminance:
  "convert dark_pil L black_pixel = Inr (LImage (1, 1) [0]) \<and>
   getpixel (resize dark_pil (1, 1) (LImage (1, 1) [0])) (0, 0) = Inr (PyInt 0)"
  by (simp add: dark_pil_def example_pil_def black_pixel_def resize_band_def
      mean_resample_def luma_def in_image_def band_at_def)

text \<open>
  Claim C3. \<^verbatim>\<open>process_image\<close> never raises: for every library behaviour and every byte
  sequence it returns a string, and whenever the body of its \<^verbatim>\<open>try\<close> block raises,
  the string is the base64 encoding of the unmodified input bytes.
\<close>

theorem process_image_never_raises:
  "(\<exists>s. snd (process_image p bs) = Inr s) \<and>
   (snd (process_image_try p bs) = Inl e \<longrightarrow> snd (process_image p bs) = Inr (b64encode bs))"
  by (auto simp: process_image_def split: prod.splits sum.splits)

theorem process_image_never_raises_witness:
  "snd (process_image_try corrupt_pil [1, 2, 3]) =
     Inl (Raised ''UnidentifiedImageError'' ''cannot identify image file'') \<and>
   snd (process_image corrupt_pil [1, 2, 3]) = Inr ''AQID''"
proof -
  have raised: "snd (process_image_try corrupt_pil [1, 2, 3]) =
      Inl (Raised ''UnidentifiedImageError'' ''cannot identify image file'')"
    by (simp add: process_image_try_def corrupt_pil_def example_pil_def)
  have enc: "b64encode [1, 2, 3] = ''AQID''"
    by (simp add: b64_char_def b64_alphabet_def)
  from process_image_never_raises
    [of corrupt_pil "[1, 2, 3]" "Raised ''UnidentifiedImageError'' ''cannot identify image file''"]
  have "snd (process_image corrupt_pil [1, 2, 3]) = Inr (b64encode [1, 2, 3])"
    using raised by blast
  with raised enc show ?thesis by simp
qed

text \<open>
  Claim C8. For every library behaviour and every byte sequence, \<^verbatim>\<open>process_image\<close>
  writes no log line and returns the base64 encoding of the unmodified input bytes: the
  body of the \<^verbatim>\<open>try\<close> block always raises before the inversion, and whenever the
  brightness check is reached, \<^verbatim>\<open>sum\<close> is applied to the integer that \<^verbatim>\<open>getpixel\<close>
  returns for the grayscale image and raises \<^verbatim>\<open>TypeError\<close>.
\<close>

theorem process_image_always_falls_back:
  "process_image p bs = ([], Inr (b64encode bs)) \<and>
   (\<exists>e. process_image_try p bs = ([], Inl e)) \<and>
   (convert p L img = Inr g \<and> getpixel (resize p (1, 1) g) (0, 0) = Inr v \<longrightarrow>
      (\<exists>m. py_sum v = Inl (TypeError m)))"
  using process_image_fallback process_image_try_raises brightness_check_raises by blast

theorem process_image_always_falls_back_witness:
  "convert dark_pil L black_pixel = Inr (LImage (1, 1) [0]) \<and>
   getpixel (resize dark_pil (1, 1) (LImage (1, 1) [0])) (0, 0) = Inr (PyInt 0) \<and>
   (\<exists>m. py_sum (PyInt 0) = Inl (TypeError m)) \<and>
   process_image dark_pil dark_png = ([], Inr ''iVBORw0KGgo='')"
  using process_image_always_falls_back
    [of dark_pil dark_png black_pixel "LImage (1, 1) [0]" "PyInt 0"]
    dark_pixel_luminance b64encode_dark_png
  by simp

text \<open>
  Claim C2, at a dark image. The decoder delivers one black pixel, whose luminance 0 is
  below the threshold 128; \<^verbatim>\<open>process_image\<close> writes no \<open>LogDark\<close> line and returns the
  encoding of the uploaded bytes, not of an inverted and contrast-stretched PNG.
\<close>

theorem dark_image_not_inverted:
  "Image_open dark_pil dark_png = Inr black_pixel \<and>
   convert dark_pil L black_pixel = Inr (LImage (1, 1) [0]) \<and>
   getpixel (resize dark_pil (1, 1) (LImage (1, 1) [0])) (0, 0) = Inr (PyInt 0) \<and>
   process_image_try dark_pil dark_png = ([], Inl (TypeError ''int object is not iterable'')) \<and>
   process_image dark_pil dark_png = ([], Inr ''iVBORw0KGgo='')"
proof -
  have opened: "Image_open dark_pil dark_png = Inr black_pixel"
    by (simp add: dark_pil_def example_pil_def)
  have tried: "process_image_try dark_pil dark_png = ([], Inl (TypeError ''int object is not iterable''))"
    by (simp add: process_image_try_def dark_pil_def example_pil_def black_pixel_def
        resize_band_def mean_resample_def luma_def in_image_def band_at_def)
  then have "process_image dark_pil dark_png = ([], Inr (b64encode dark_png))"
    by (simp add: process_image_def)
  with opened tried dark_pixel_luminance b64encode_dark_png show ?thesis by simp
qed

section \<open>Properties of validation\<close>

lemma at_loc_Inr: "at_loc l r = Inr v \<longleftrightarrow> r = Inr v"
  by (auto simp: at_loc_def split: sum.splits)

lemma at_loc_Inl: "at_loc l r = Inl (ls, t) \<longleftrightarrow> (\<exists>ls'. r = Inl (ls', t) \<and> ls = l # ls')"
  by (auto simp: at_loc_def split: sum.splits)

lemma required_Inr: "required kvs k v = Inr x \<longleftrightarrow> (\<exists>j. map_of kvs k = Some j \<and> v j = Inr x)"
  by (auto simp: required_def at_loc_Inr split: option.splits)

lemma with_default_Inr:
  "with_default kvs k v d = Inr x \<longleftrightarrow>
     (map_of kvs k = None \<and> x = d) \<or> (\<exists>j. map_of kvs k = Some j \<and> v j = Inr x)"
  by (auto simp: with_default_def at_loc_Inr split: option.splits)

lemma validate_str_Inr: "validate_str j = Inr s \<longleftrightarrow> j = JStr s"
  by (auto simp: validate_str_def split: json.splits)

lemma validate_literal_Inr: "validate_literal A j = Inr s \<longleftrightarrow> j = JStr s \<and> s \<in> set A"
  by (auto simp: validate_literal_def split: json.splits)

lemma validate_items_Inr:
  "validate_items v i xs = Inr ys \<Longrightarrow> list_all2 (\<lambda>x y. v x = Inr y) xs ys"
  by (induction xs arbitrary: i ys) (auto simp: at_loc_Inr split: sum.splits)

lemma validate_list_Inr:
  "validate_list v j = Inr ys \<longleftrightarrow> (\<exists>xs. j = JArr xs \<and> validate_items v 0 xs = Inr ys)"
  by (auto simp: validate_list_def split: json.splits)

lemma validate_Column_Inr:
  "validate_Column j = Inr c \<longleftrightarrow>
     (\<exists>kvs. j = JObj kvs \<and>
        required kvs ''name'' validate_str = Inr (col_name c) \<and>
        required kvs ''type'' (validate_literal SQLiteType) = Inr (col_type c) \<and>
        with_default kvs ''is_primary_key'' validate_bool False = Inr (is_primary_key c) \<and>
        with_default kvs ''is_foreign_key'' validate_bool False = Inr (is_foreign_key c))"
  by (cases c) (auto simp: validate_Column_def split: json.splits sum.splits)

lemma validate_Relationship_Inr:
  "validate_Relationship j = Inr r \<longleftrightarrow>
     (\<exists>kvs. j = JObj kvs \<and>
        required kvs ''from_table'' validate_str = Inr (from_table r) \<and>
        required kvs ''from_column'' validate_str = Inr (from_column r) \<and>
        required kvs ''to_table'' validate_str = Inr (to_table r) \<and>
        required kvs ''to_column'' validate_str = Inr (to_column r) \<and>
        with_default kvs ''type'' (validate_literal RelationshipType) ''1:N'' = Inr (rel_type r))"
  by (cases r) (auto simp: validate_Relationship_def split: json.splits sum.splits)

lemma validate_Table_Inr:
  "validate_Table j = Inr t \<longleftrightarrow>
     (\<exists>kvs. j = JObj kvs \<and>
        required kvs ''name'' validate_str = Inr (tbl_name t) \<and>
        required kvs ''columns'' (validate_list validate_Column) = Inr (columns t))"
  by (cases t) (auto simp: validate_Table_def split: json.splits sum.splits)

lemma validate_DatabaseSchema_Inr:
  "validate_DatabaseSchema j = Inr s \<longleftrightarrow>
     (\<exists>kvs. j = JObj kvs \<and>
        required kvs ''tables'' (validate_list validate_Table) = Inr (tables s) \<and>
        required kvs ''relationships'' (validate_list validate_Relationship) = Inr (relationships s))"
  by (cases s) (auto simp: validate_DatabaseSchema_def split: json.splits sum.splits)


lemma column_type_exact:
  assumes "validate_Column (JObj kvs) = Inr c"
  shows "\<exists>t. map_of kvs ''type'' = Some (JStr t) \<and> t \<in> set SQLiteType \<and> col_type c = t"
  using assms by (auto simp: validate_Column_Inr required_Inr validate_literal_Inr)

lemma relationship_type_exact:
  assumes "validate_Relationship (JObj kvs) = Inr r"
  shows "(map_of kvs ''type'' = None \<and> rel_type r = ''1:N'') \<or>
         (\<exists>t. map_of kvs ''type'' = Some (JStr t) \<and> t \<in> set RelationshipType \<and> rel_type r = t)"
  using assms by (auto simp: validate_Relationship_Inr with_default_Inr validate_literal_Inr)

lemma list_all2_left: "list_all2 P xs ys \<Longrightarrow> x \<in> set xs \<Longrightarrow> \<exists>y \<in> set ys. P x y"
  by (induction rule: list_all2_induct) auto

lemma list_all2_right: "list_all2 P xs ys \<Longrightarrow> y \<in> set ys \<Longrightarrow> \<exists>x \<in> set xs. P x y"
  by (induction rule: list_all2_induct) auto

lemma table_columns_input:
  assumes "validate_Table tj = Inr t"
  shows "\<exists>tkvs cs. tj = JObj tkvs \<and> map_of tkvs ''columns'' = Some (JArr cs) \<and>
           list_all2 (\<lambda>cj c. validate_Column cj = Inr c) cs (columns t)"
  using assms
  by (auto simp: validate_Table_Inr required_Inr validate_list_Inr dest: validate_items_Inr)

lemma schema_input:
  assumes "validate_DatabaseSchema (JObj obj) = Inr s"
  shows "\<exists>ts rs. map_of obj ''tables'' = Some (JArr ts) \<and>
            map_of obj ''relationships'' = Some (JArr rs) \<and>
            list_all2 (\<lambda>tj t. validate_Table tj = Inr t) ts (tables s) \<and>
            list_all2 (\<lambda>rj r. validate_Relationship rj = Inr r) rs (relationships s)"
  using assms
  by (auto simp: validate_DatabaseSchema_Inr required_Inr validate_list_Inr dest: validate_items_Inr)

lemma column_input_typed:
  assumes "validate_Column cj = Inr c"
  shows "\<exists>ckvs t. cj = JObj ckvs \<and> map_of ckvs ''type'' = Some (JStr t) \<and> t \<in> set SQLiteType"
  using assms by (auto simp: validate_Column_Inr required_Inr validate_literal_Inr)

lemma relationship_input_typed:
  assumes "validate_Relationship rj = Inr r"
  shows "\<exists>rkvs. rj = JObj rkvs \<and>
           (map_of rkvs ''type'' = None \<or>
            (\<exists>t. map_of rkvs ''type'' = Some (JStr t) \<and> t \<in> set RelationshipType))"
  using assms by (auto simp: validate_Relationship_Inr with_default_Inr validate_literal_Inr)

lemma table_input_typed:
  assumes "validate_Table tj = Inr t"
  shows "\<exists>tkvs cs. tj = JObj tkvs \<and> map_of tkvs ''columns'' = Some (JArr cs) \<and>
           (\<forall>cj \<in> set cs. \<exists>ckvs ty. cj = JObj ckvs \<and> map_of ckvs ''type'' = Some (JStr ty) \<and>
                ty \<in> set SQLiteType)"
proof -
  from table_columns_input [OF assms] obtain tkvs cs where
    1: "tj = JObj tkvs" "map_of tkvs ''columns'' = Some (JArr cs)" and
    2: "list_all2 (\<lambda>cj c. validate_Column cj = Inr c) cs (columns t)"
    by blast
  have "\<exists>ckvs ty. cj = JObj ckvs \<and> map_of ckvs ''type'' = Some (JStr ty) \<and> ty \<in> set SQLiteType"
    if "cj \<in> set cs" for cj
    using list_all2_left [OF 2 that] column_input_typed by blast
  with 1 show ?thesis by blast
qed

lemma schema_input_typed:
  assumes "validate_DatabaseSchema (JObj obj) = Inr s"
  shows "\<exists>ts rs. map_of obj ''tables'' = Some (JArr ts) \<and>
           map_of obj ''relationships'' = Some (JArr rs) \<and>
           (\<forall>tj \<in> set ts. \<exists>tkvs cs. tj = JObj tkvs \<and> map_of tkvs ''columns'' = Some (JArr cs) \<and>
              (\<forall>cj \<in> set cs. \<exists>ckvs ty. cj = JObj ckvs \<and>
                   map_of ckvs ''type'' = Some (JStr ty) \<and> ty \<in> set SQLiteType)) \<and>
           (\<forall>rj \<in> set rs. \<exists>rkvs. rj = JObj rkvs \<and>
              (map_of rkvs ''type'' = None \<or>
               (\<exists>ty. map_of rkvs ''type'' = Some (JStr ty) \<and> ty \<in> set RelationshipType)))"
proof -
  from schema_input [OF assms] obtain ts rs where
    1: "map_of obj ''tables'' = Some (JArr ts)" "map_of obj ''relationships'' = Some (JArr rs)" and
    2: "list_all2 (\<lambda>tj t. validate_Table tj = Inr t) ts (tables s)" and
    3: "list_all2 (\<lambda>rj r. validate_Relationship rj = Inr r) rs (relationships s)"
    by blast
  have a: "\<exists>tkvs cs. tj = JObj tkvs \<and> map_of tkvs ''columns'' = Some (JArr cs) \<and>
              (\<forall>cj \<in> set cs. \<exists>ckvs ty. cj = JObj ckvs \<and>
                   map_of ckvs ''type'' = Some (JStr ty) \<and> ty \<in> set SQLiteType)"
    if "tj \<in> set ts" for tj
    using list_all2_left [OF 2 that] table_input_typed by blast
  have b: "\<exists>rkvs. rj = JObj rkvs \<and>
              (map_of rkvs ''type'' = None \<or>
               (\<exists>ty. map_of rkvs ''type'' = Some (JStr ty) \<and> ty \<in> set RelationshipType))"
    if "rj \<in> set rs" for rj
    using list_all2_left [OF 3 that] relationship_input_typed by blast
  from 1 a b show ?thesis by blast
qed

lemma schema_output_typed:
  assumes "validate_DatabaseSchema j = Inr s"
  shows "(\<forall>t \<in> set (tables s). \<forall>c \<in> set (columns t). col_type c \<in> set SQLiteType) \<and>
         (\<forall>r \<in> set (relationships s). rel_type r \<in> set RelationshipType)"
proof -
  from assms obtain obj where j: "j = JObj obj"
    by (auto simp: validate_DatabaseSchema_Inr)
  from schema_input [OF assms [unfolded j]] obtain ts rs where
    2: "list_all2 (\<lambda>tj t. validate_Table tj = Inr t) ts (tables s)" and
    3: "list_all2 (\<lambda>rj r. validate_Relationship rj = Inr r) rs (relationships s)"
    by blast
  have "col_type c \<in> set SQLiteType" if "t \<in> set (tables s)" "c \<in> set (columns t)" for t c
  proof -
    from list_all2_right [OF 2 that(1)] obtain tj where "validate_Table tj = Inr t" by blast
    from table_columns_input [OF this] obtain cs where
      "list_all2 (\<lambda>cj c. validate_Column cj = Inr c) cs (columns t)" by blast
    from list_all2_right [OF this that(2)] obtain cj where "validate_Column cj = Inr c" by blast
    then show ?thesis
      by (auto simp: validate_Column_Inr required_Inr validate_literal_Inr)
  qed
  moreover have "rel_type r \<in> set RelationshipType" if "r \<in> set (relationships s)" for r
  proof -
    from list_all2_right [OF 3 that] obtain rj where "validate_Relationship rj = Inr r" by blast
    then show ?thesis
      by (auto simp: validate_Relationship_Inr with_default_Inr validate_literal_Inr RelationshipType_def)
  qed
  ultimately show ?thesis by blast
qed

lemma column_bad_type_rejected:
  assumes "map_of kvs ''type'' = Some (JStr t)" and "t \<notin> set SQLiteType"
  shows "\<exists>e. validate_Column (JObj kvs) = Inl e"
proof (cases "validate_Column (JObj kvs)")
  case (Inl e) then show ?thesis by blast
next
  case (Inr c)
  from column_type_exact [OF this] assms show ?thesis by auto
qed

lemmas validator_defs =
  validate_Column_def validate_Table_def validate_Relationship_def validate_DatabaseSchema_def
  validate_list_def required_def with_default_def at_loc_def validate_str_def validate_bool_def
  validate_literal_def SQLiteType_def RelationshipType_def

lemma validate_id_column:
  "validate_Column (JObj id_column_json) =
     Inr \<lparr>col_name = ''id'', col_type = ''UUID'', is_primary_key = True, is_foreign_key = False\<rparr>"
  by (simp add: id_column_json_def validator_defs)

lemma validate_email_column:
  "validate_Column (JObj email_column_json) =
     Inr \<lparr>col_name = ''email'', col_type = ''TEXT'', is_primary_key = False, is_foreign_key = False\<rparr>"
  by (simp add: email_column_json_def validator_defs)

lemma validate_orders_relationship:
  "validate_Relationship (JObj orders_relationship_json) =
     Inr \<lparr>from_table = ''orders'', from_column = ''user_id'', to_table = ''users'',
          to_column = ''id'', rel_type = ''1:N''\<rparr>"
  by (simp add: orders_relationship_json_def validator_defs)

lemma validate_users_schema: "validate_DatabaseSchema (JObj users_schema_json) = Inr users_schema"
  by (simp add: users_schema_json_def users_schema_def validate_DatabaseSchema_def
      validate_Table_def validate_list_def required_def at_loc_def validate_str_def
      validate_id_column validate_email_column validate_orders_relationship)

lemma validate_float_column:
  "validate_Column (JObj float_column_json) = Inl ([Key ''type''], LiteralError)"
  by (simp add: float_column_json_def validator_defs)

lemma validate_many_relationship:
  "validate_Relationship (JObj many_relationship_json) = Inl ([Key ''type''], LiteralError)"
  by (simp add: many_relationship_json_def orders_relationship_json_def validator_defs)

lemma relationship_bad_type_rejected:
  assumes "map_of kvs ''type'' = Some (JStr t)" and "t \<notin> set RelationshipType"
  shows "\<exists>e. validate_Relationship (JObj kvs) = Inl e"
proof (cases "validate_Relationship (JObj kvs)")
  case (Inl e) then show ?thesis by blast
next
  case (Inr r)
  from relationship_type_exact [OF this] assms show ?thesis by auto
qed

lemma relationship_default:
  assumes "map_of kvs ''from_table'' = Some (JStr ft)" "map_of kvs ''from_column'' = Some (JStr fc)"
    "map_of kvs ''to_table'' = Some (JStr tt)" "map_of kvs ''to_column'' = Some (JStr tc)"
    "map_of kvs ''type'' = None"
  shows "validate_Relationship (JObj kvs) =
     Inr \<lparr>from_table = ft, from_column = fc, to_table = tt, to_column = tc, rel_type = ''1:N''\<rparr>"
  using assms
  by (simp add: validate_Relationship_def required_def with_default_def at_loc_def validate_str_def)

lemma relationship_type_member:
  assumes "validate_Relationship j = Inr r"
  shows "rel_type r \<in> {''1:1'', ''1:N'', ''N:N''}"
  using assms
  by (auto simp: validate_Relationship_Inr with_default_Inr validate_literal_Inr RelationshipType_def)

lemma column_flags_omitted:
  assumes "map_of kvs ''name'' = Some (JStr n)" "map_of kvs ''type'' = Some (JStr t)"
    "t \<in> set SQLiteType" "map_of kvs ''is_primary_key'' = None" "map_of kvs ''is_foreign_key'' = None"
  shows "validate_Column (JObj kvs) =
     Inr \<lparr>col_name = n, col_type = t, is_primary_key = False, is_foreign_key = False\<rparr>"
  using assms
  by (simp add: validate_Column_def required_def with_default_def at_loc_def validate_str_def
      validate_literal_def)

lemma column_pk_omitted:
  assumes "validate_Column (JObj kvs) = Inr c" "map_of kvs ''is_primary_key'' = None"
  shows "\<not> is_primary_key c"
  using assms by (auto simp: validate_Column_Inr with_default_Inr)

lemma column_fk_omitted:
  assumes "validate_Column (JObj kvs) = Inr c" "map_of kvs ''is_foreign_key'' = None"
  shows "\<not> is_foreign_key c"
  using assms by (auto simp: validate_Column_Inr with_default_Inr)

lemma required_Inl: "required kvs k v = Inl (ls, e) \<Longrightarrow> \<exists>ls'. ls = Key k # ls'"
  by (auto simp: required_def at_loc_def split: option.splits sum.splits)

lemma with_default_Inl:
  "with_default kvs k v d = Inl (ls, e) \<Longrightarrow> map_of kvs k \<noteq> None \<and> (\<exists>ls'. ls = Key k # ls')"
  by (auto simp: with_default_def at_loc_def split: option.splits sum.splits)

lemma validate_Column_Inl:
  assumes "validate_Column (JObj kvs) = Inl (ls, e)"
  shows "(\<exists>ls'. ls = Key ''name'' # ls') \<or> (\<exists>ls'. ls = Key ''type'' # ls') \<or>
         (map_of kvs ''is_primary_key'' \<noteq> None \<and> (\<exists>ls'. ls = Key ''is_primary_key'' # ls')) \<or>
         (map_of kvs ''is_foreign_key'' \<noteq> None \<and> (\<exists>ls'. ls = Key ''is_foreign_key'' # ls'))"
  using assms
  by (auto simp: validate_Column_def split: sum.splits dest!: required_Inl with_default_Inl)

lemma column_error_not_at_omitted:
  assumes "validate_Column (JObj kvs) = Inl (ls, e)" "map_of kvs k = None"
    "k = ''is_primary_key'' \<or> k = ''is_foreign_key''"
  shows "\<forall>ls'. ls \<noteq> Key k # ls'"
  using validate_Column_Inl [OF assms(1)] assms(2,3) by auto

text \<open>
  Claim C4. Validation accepts a column only when its \<open>type\<close> is a string that is a
  member of \<open>SQLiteType\<close>, and the validated column holds that very string; a relationship
  only when its \<open>type\<close> is absent or a string that is a member of \<open>RelationshipType\<close>.
  An accepted schema has such a \<open>type\<close> in every column object of every table and in every
  relationship object of the output, and every type it holds is a member of its
  enumeration. A column or relationship whose \<open>type\<close> is any other string is rejected.
  Membership is equality of strings, so it is exact and case-sensitive.
\<close>

theorem type_fields_exact:
  "(validate_Column (JObj ckvs) = Inr c \<longrightarrow>
      (\<exists>t. map_of ckvs ''type'' = Some (JStr t) \<and> t \<in> set SQLiteType \<and> col_type c = t)) \<and>
   (validate_Relationship (JObj rkvs) = Inr r \<longrightarrow>
      (map_of rkvs ''type'' = None \<and> rel_type r = ''1:N'') \<or>
      (\<exists>t. map_of rkvs ''type'' = Some (JStr t) \<and> t \<in> set RelationshipType \<and> rel_type r = t)) \<and>
   (validate_DatabaseSchema (JObj obj) = Inr s \<longrightarrow>
      (\<exists>ts rs. map_of obj ''tables'' = Some (JArr ts) \<and>
         map_of obj ''relationships'' = Some (JArr rs) \<and>
         (\<forall>tj \<in> set ts. \<exists>tkvs cs. tj = JObj tkvs \<and> map_of tkvs ''columns'' = Some (JArr cs) \<and>
            (\<forall>cj \<in> set cs. \<exists>kvs ty. cj = JObj kvs \<and>
                 map_of kvs ''type'' = Some (JStr ty) \<and> ty \<in> set SQLiteType)) \<and>
         (\<forall>rj \<in> set rs. \<exists>kvs. rj = JObj kvs \<and>
            (map_of kvs ''type'' = None \<or>
             (\<exists>ty. map_of kvs ''type'' = Some (JStr ty) \<and> ty \<in> set RelationshipType)))) \<and>
      (\<forall>t \<in> set (tables s). \<forall>c \<in> set (columns t). col_type c \<in> set SQLiteType) \<and>
      (\<forall>r \<in> set (relationships s). rel_type r \<in> set RelationshipType)) \<and>
   (map_of bad ''type'' = Some (JStr bt) \<and> bt \<notin> set SQLiteType \<longrightarrow>
      (\<exists>e. validate_Column (JObj bad) = Inl e)) \<and>
   (map_of badr ''type'' = Some (JStr brt) \<and> brt \<notin> set RelationshipType \<longrightarrow>
      (\<exists>e. validate_Relationship (JObj badr) = Inl e)) \<and>
   set SQLiteType = {''UUID'', ''TEXT'', ''INTEGER'', ''BOOLEAN'', ''TIMESTAMP'', ''JSON''} \<and>
   set RelationshipType = {''1:1'', ''1:N'', ''N:N''}"
proof -
  have enums: "set SQLiteType = {''UUID'', ''TEXT'', ''INTEGER'', ''BOOLEAN'', ''TIMESTAMP'', ''JSON''}"
    "set RelationshipType = {''1:1'', ''1:N'', ''N:N''}"
    by (simp_all add: SQLiteType_def RelationshipType_def)
  show ?thesis
    using column_type_exact [of ckvs c] relationship_type_exact [of rkvs r]
      schema_input_typed [of obj s] schema_output_typed [of "JObj obj" s]
      column_bad_type_rejected [of bad bt] relationship_bad_type_rejected [of badr brt] enums
    by blast
qed

theorem type_fields_exact_witness:
  "col_type \<lparr>col_name = ''id'', col_type = ''UUID'', is_primary_key = True, is_foreign_key = False\<rparr>
     \<in> set SQLiteType \<and>
   validate_DatabaseSchema (JObj users_schema_json) = Inr users_schema \<and>
   map col_type (concat (map columns (tables users_schema))) = [''UUID'', ''TEXT''] \<and>
   map rel_type (relationships users_schema) = [''1:N''] \<and>
   map_of float_column_json ''type'' = Some (JStr ''FLOAT'') \<and> ''FLOAT'' \<notin> set SQLiteType \<and>
   (\<exists>e. validate_Column (JObj float_column_json) = Inl e) \<and>
   map_of many_relationship_json ''type'' = Some (JStr ''many'') \<and>
   ''many'' \<notin> set RelationshipType \<and>
   (\<exists>e. validate_Relationship (JObj many_relationship_json) = Inl e)"
proof -
  have f: "map_of float_column_json ''type'' = Some (JStr ''FLOAT'')" "''FLOAT'' \<notin> set SQLiteType"
    by (simp_all add: float_column_json_def SQLiteType_def)
  have m: "map_of many_relationship_json ''type'' = Some (JStr ''many'')"
    "''many'' \<notin> set RelationshipType"
    by (simp_all add: many_relationship_json_def orders_relationship_json_def RelationshipType_def)
  from type_fields_exact
    [of id_column_json
        "\<lparr>col_name = ''id'', col_type = ''UUID'', is_primary_key = True, is_foreign_key = False\<rparr>"
        orders_relationship_json
        "\<lparr>from_table = ''orders'', from_column = ''user_id'', to_table = ''users'',
          to_column = ''id'', rel_type = ''1:N''\<rparr>"
        users_schema_json users_schema float_column_json "''FLOAT''"
        many_relationship_json "''many''"]
    validate_id_column validate_orders_relationship validate_users_schema f m
  show ?thesis by (auto simp: users_schema_def)
qed

text \<open>
  Claim C7. The \<open>type\<close> of a validated relationship is one of \<open>1:1\<close>, \<open>1:N\<close>, \<open>N:N\<close>; when
  the output has no \<open>type\<close> key, the validated relationship holds \<open>1:N\<close>, and an output
  with the four string references and no \<open>type\<close> key is accepted.
\<close>

theorem relationship_type_default:
  "(validate_Relationship j = Inr r \<longrightarrow> rel_type r \<in> {''1:1'', ''1:N'', ''N:N''}) \<and>
   (validate_Relationship (JObj kvs) = Inr r' \<and> map_of kvs ''type'' = None \<longrightarrow>
      rel_type r' = ''1:N'') \<and>
   (map_of kvs2 ''from_table'' = Some (JStr ft) \<and> map_of kvs2 ''from_column'' = Some (JStr fc) \<and>
    map_of kvs2 ''to_table'' = Some (JStr tt) \<and> map_of kvs2 ''to_column'' = Some (JStr tc) \<and>
    map_of kvs2 ''type'' = None \<longrightarrow>
      validate_Relationship (JObj kvs2) =
        Inr \<lparr>from_table = ft, from_column = fc, to_table = tt, to_column = tc,
             rel_type = ''1:N''\<rparr>)"
  using relationship_type_member [of j r] relationship_type_exact [of kvs r']
    relationship_default [of kvs2 ft fc tt tc]
  by auto

theorem relationship_type_default_witness:
  "map_of orders_relationship_json ''type'' = None \<and>
   validate_Relationship (JObj orders_relationship_json) =
     Inr \<lparr>from_table = ''orders'', from_column = ''user_id'', to_table = ''users'',
          to_column = ''id'', rel_type = ''1:N''\<rparr> \<and>
   rel_type \<lparr>from_table = ''orders'', from_column = ''user_id'', to_table = ''users'',
             to_column = ''id'', rel_type = ''1:N''\<rparr> \<in> {''1:1'', ''1:N'', ''N:N''}"
proof -
  have keys: "map_of orders_relationship_json ''from_table'' = Some (JStr ''orders'')"
    "map_of orders_relationship_json ''from_column'' = Some (JStr ''user_id'')"
    "map_of orders_relationship_json ''to_table'' = Some (JStr ''users'')"
    "map_of orders_relationship_json ''to_column'' = Some (JStr ''id'')"
    "map_of orders_relationship_json ''type'' = None"
    by (simp_all add: orders_relationship_json_def)
  from relationship_type_default
    [of "JObj orders_relationship_json"
        "\<lparr>from_table = ''orders'', from_column = ''user_id'', to_table = ''users'',
          to_column = ''id'', rel_type = ''1:N''\<rparr>"
        orders_relationship_json
        "\<lparr>from_table = ''orders'', from_column = ''user_id'', to_table = ''users'',
          to_column = ''id'', rel_type = ''1:N''\<rparr>"
        orders_relationship_json "''orders''" "''user_id''" "''users''" "''id''"]
    keys
  show ?thesis by simp
qed

text \<open>
  Claim C10. A column output with a string name, a type of the enumeration and neither
  flag is accepted with both flags \<open>False\<close>; a validated column whose output has no
  \<open>is_primary_key\<close> (\<open>is_foreign_key\<close>) key holds \<open>False\<close> there; and when a column output
  without one of the two keys is rejected, the error is never located at that key.
\<close>

theorem column_flags_default:
  "(map_of kvs ''name'' = Some (JStr n) \<and> map_of kvs ''type'' = Some (JStr t) \<and>
    t \<in> set SQLiteType \<and> map_of kvs ''is_primary_key'' = None \<and>
    map_of kvs ''is_foreign_key'' = None \<longrightarrow>
      validate_Column (JObj kvs) =
        Inr \<lparr>col_name = n, col_type = t, is_primary_key = False, is_foreign_key = False\<rparr>) \<and>
   (validate_Column (JObj kvs1) = Inr c1 \<and> map_of kvs1 ''is_primary_key'' = None \<longrightarrow>
      \<not> is_primary_key c1) \<and>
   (validate_Column (JObj kvs2) = Inr c2 \<and> map_of kvs2 ''is_foreign_key'' = None \<longrightarrow>
      \<not> is_foreign_key c2) \<and>
   (validate_Column (JObj kvs3) = Inl (ls, e) \<and> map_of kvs3 k = None \<and>
    (k = ''is_primary_key'' \<or> k = ''is_foreign_key'') \<longrightarrow> (\<forall>ls'. ls \<noteq> Key k # ls'))"
  using column_flags_omitted [of kvs n t] column_pk_omitted [of kvs1 c1]
    column_fk_omitted [of kvs2 c2] column_error_not_at_omitted [of kvs3 ls e k]
  by blast

theorem column_flags_default_witness:
  "map_of email_column_json ''is_primary_key'' = None \<and>
   map_of email_column_json ''is_foreign_key'' = None \<and>
   validate_Column (JObj email_column_json) =
     Inr \<lparr>col_name = ''email'', col_type = ''TEXT'', is_primary_key = False,
          is_foreign_key = False\<rparr> \<and>
   map_of float_column_json ''is_primary_key'' = None \<and>
   validate_Column (JObj float_column_json) = Inl ([Key ''type''], LiteralError) \<and>
   [Key ''type''] \<noteq> [Key ''is_primary_key'']"
proof -
  have keys: "map_of email_column_json ''name'' = Some (JStr ''email'')"
    "map_of email_column_json ''type'' = Some (JStr ''TEXT'')" "''TEXT'' \<in> set SQLiteType"
    "map_of email_column_json ''is_primary_key'' = None"
    "map_of email_column_json ''is_foreign_key'' = None"
    "map_of float_column_json ''is_primary_key'' = None"
    by (simp_all add: email_column_json_def float_column_json_def SQLiteType_def)
  from column_flags_default
    [of email_column_json "''email''" "''TEXT''" email_column_json
        "\<lparr>col_name = ''email'', col_type = ''TEXT'', is_primary_key = False,
          is_foreign_key = False\<rparr>"
        email_column_json
        "\<lparr>col_name = ''email'', col_type = ''TEXT'', is_primary_key = False,
          is_foreign_key = False\<rparr>"
        float_column_json "[Key ''type'']" LiteralError "''is_primary_key''"]
    keys validate_float_column
  show ?thesis by simp
qed

section \<open>Properties of the pipeline\<close>

lemma brain_calls_snoc [simp]: "brain_calls (tr @ [BrainCall req]) = Suc (brain_calls tr)"
  by (simp add: brain_calls_def)

lemma structured_attempts_calls_le:
  "brain_calls (fst (structured_attempts en r req tr)) \<le> brain_calls tr + Suc r"
proof (induction r arbitrary: req tr)
  case 0
  show ?case by (simp split: sum.splits)
next
  case (Suc r)
  have a: "brain_calls (fst (structured_attempts en r q (tr @ [BrainCall req]))) \<le> brain_calls tr + Suc (Suc r)" for q
    using Suc [of q "tr @ [BrainCall req]"] by simp
  show ?case using a by (simp split: sum.splits)
qed

lemma structured_attempts_exhausted:
  assumes "\<forall>k q. \<exists>out ve. brain_model en k q = Inr out \<and> validate_completion out = Inl ve"
  shows "brain_calls (fst (structured_attempts en r req tr)) = brain_calls tr + Suc r \<and>
         (\<exists>m. snd (structured_attempts en r req tr) = Inl (ValidationExhaustion m))"
proof (induction r arbitrary: req tr)
  case 0
  from assms obtain out ve where
    "brain_model en (brain_calls tr) req = Inr out" "validate_completion out = Inl ve"
    by blast
  then show ?case by simp
next
  case (Suc r)
  from assms obtain out ve where
    "brain_model en (brain_calls tr) req = Inr out" "validate_completion out = Inl ve"
    by blast
  with Suc [of "req\<lparr>messages := messages req @ reask en out ve\<rparr>" "tr @ [BrainCall req]"]
  show ?case by simp
qed

lemma structured_attempts_valid:
  "snd (structured_attempts en r req tr) = Inr s \<Longrightarrow> \<exists>out. validate_completion out = Inr s"
proof (induction r arbitrary: req tr)
  case 0
  then show ?case by (auto split: sum.splits)
next
  case (Suc r)
  then show ?case by (auto split: sum.splits)
qed

lemma structured_attempts_trace:
  "\<exists>calls. fst (structured_attempts en r req tr) = tr @ calls \<and> (\<forall>e \<in> set calls. is_BrainCall e)"
proof (induction r arbitrary: req tr)
  case 0
  show ?case by (auto split: sum.splits)
next
  case (Suc r)
  have "\<exists>calls. fst (structured_attempts en r q (tr @ [BrainCall req])) = tr @ calls \<and>
          (\<forall>e \<in> set calls. is_BrainCall e)" for q
  proof -
    from Suc [of q "tr @ [BrainCall req]"] obtain calls where
      "fst (structured_attempts en r q (tr @ [BrainCall req])) = (tr @ [BrainCall req]) @ calls"
      "\<forall>e \<in> set calls. is_BrainCall e" by blast
    then have "fst (structured_attempts en r q (tr @ [BrainCall req])) = tr @ (BrainCall req # calls)
       \<and> (\<forall>e \<in> set (BrainCall req # calls). is_BrainCall e)" by simp
    then show ?thesis by blast
  qed
  then show ?case by (auto split: sum.splits)
qed

lemma brain_calls_simps [simp]:
  "brain_calls [] = 0"
  "brain_calls (Log l # tr) = brain_calls tr"
  "brain_calls (VisionCall q # tr) = brain_calls tr"
  "brain_calls (BrainCall q # tr) = Suc (brain_calls tr)"
  "brain_calls (tr @ tr') = brain_calls tr + brain_calls tr'"
  by (simp_all add: brain_calls_def)

lemma vision_urls_simps [simp]:
  "vision_urls [] = []"
  "vision_urls (e # tr) = event_vision_urls e @ vision_urls tr"
  "vision_urls (tr @ tr') = vision_urls tr @ vision_urls tr'"
  by (simp_all add: vision_urls_def)

lemma vision_urls_brain_calls: "\<forall>e \<in> set calls. is_BrainCall e \<Longrightarrow> vision_urls calls = []"
proof (induction calls)
  case Nil
  show ?case by simp
next
  case (Cons e calls)
  then show ?case by (cases e) simp_all
qed

lemma vision_request_urls: "request_urls (vision_request en u) = [u]"
  by (simp add: request_urls_def vision_request_def)

lemma generate_schema_try_unfold:
  "generate_schema_try en file =
     (case vision_model en (vision_request en (data_url_of (b64encode (file_bytes file)))) of
        Inl e \<Rightarrow>
          ([Log LogStage1,
            VisionCall (vision_request en (data_url_of (b64encode (file_bytes file))))],
           Inl e)
      | Inr [] \<Rightarrow>
          ([Log LogStage1,
            VisionCall (vision_request en (data_url_of (b64encode (file_bytes file))))],
           Inl (IndexError ''list index out of range''))
      | Inr (description # others) \<Rightarrow>
          (case create_structured en 2 (brain_request en description)
                  [Log LogStage1,
                   VisionCall (vision_request en (data_url_of (b64encode (file_bytes file)))),
                   Log LogStage2] of
             (tr2, Inl e) \<Rightarrow> (tr2, Inl e)
           | (tr2, Inr schema) \<Rightarrow> (tr2 @ [Log (LogSuccess (length (tables schema)))], Inr schema)))"
  by (simp add: generate_schema_try_def process_image_fallback Let_def
      split: sum.splits list.splits)

lemma create_structured_calls_le:
  "brain_calls (fst (create_structured en r req tr)) \<le> brain_calls tr + Suc r"
  using structured_attempts_calls_le [of en r _ tr] by (simp add: create_structured_def)

lemma generate_schema_try_calls_le: "brain_calls (fst (generate_schema_try en file)) \<le> 3"
proof -
  have "brain_calls (fst (create_structured en 2 q [Log LogStage1, VisionCall v, Log LogStage2])) \<le> 3" for q v
    using create_structured_calls_le [of en 2 q "[Log LogStage1, VisionCall v, Log LogStage2]"] by simp
  then show ?thesis
    by (auto simp: generate_schema_try_unfold split: sum.splits list.splits prod.splits)
       (metis fst_conv)+
qed

lemma generate_schema_calls:
  "brain_calls (fst (generate_schema en file)) =
     (if accepted file then brain_calls (fst (generate_schema_try en file)) else 0)"
  by (simp add: generate_schema_def split: prod.splits sum.splits)

lemma generate_schema_failure:
  assumes "accepted file" and "snd (generate_schema_try en file) = Inl e"
  shows "snd (generate_schema en file) = HTTPException 500 (''Processing failed: '' @ exn_str e)"
  using assms by (cases "generate_schema_try en file") (simp add: generate_schema_def)

lemma generate_schema_success:
  assumes "accepted file" and "snd (generate_schema_try en file) = Inr s"
  shows "snd (generate_schema en file) = Ok s"
  using assms by (cases "generate_schema_try en file") (simp add: generate_schema_def)

lemma generate_schema_try_valid:
  assumes "snd (generate_schema_try en file) = Inr s"
  shows "\<exists>out. validate_completion out = Inr s"
proof -
  have "\<exists>out. validate_completion out = Inr s"
    if "create_structured en 2 q tr = (tr2, Inr s)" for q tr tr2
    using that
      structured_attempts_valid [of en 2 "q\<lparr>messages := with_schema en (messages q)\<rparr>" tr s]
    by (simp add: create_structured_def)
  with assms show ?thesis
    by (auto simp: generate_schema_try_unfold split: sum.splits list.splits prod.splits)
qed

lemma accepted_iff:
  "accepted file \<longleftrightarrow>
     content_type file \<in> {Some ''image/jpeg'', Some ''image/png'', Some ''image/webp''}"
  by (auto simp: accepted_def allowed_content_types_def split: option.splits)

lemma vision_calls_simps [simp]:
  "vision_calls [] = 0"
  "vision_calls (Log l # tr) = vision_calls tr"
  "vision_calls (VisionCall q # tr) = Suc (vision_calls tr)"
  "vision_calls (BrainCall q # tr) = vision_calls tr"
  "vision_calls (tr @ tr') = vision_calls tr + vision_calls tr'"
  by (simp_all add: vision_calls_def)

lemma generate_schema_try_exhausted:
  assumes vis: "vision_model en (vision_request en (data_url_of (b64encode (file_bytes file)))) = Inr (d # ds)"
    and inv: "\<forall>k q. \<exists>out ve. brain_model en k q = Inr out \<and> validate_completion out = Inl ve"
  shows "brain_calls (fst (generate_schema_try en file)) = 3 \<and>
         (\<exists>m. snd (generate_schema_try en file) = Inl (ValidationExhaustion m))"
proof -
  let ?tr = "[Log LogStage1,
              VisionCall (vision_request en (data_url_of (b64encode (file_bytes file)))),
              Log LogStage2]"
  let ?r = "create_structured en 2 (brain_request en d) ?tr"
  from structured_attempts_exhausted [OF inv, of 2 _ ?tr]
  have "brain_calls (fst ?r) = 3 \<and> (\<exists>m. snd ?r = Inl (ValidationExhaustion m))"
    by (simp add: create_structured_def)
  then obtain m where c: "brain_calls (fst ?r) = 3" and e: "snd ?r = Inl (ValidationExhaustion m)"
    by blast
  obtain tr2 where "?r = (tr2, Inl (ValidationExhaustion m))"
    using e by (cases ?r) simp
  with c vis show ?thesis
    by (simp add: generate_schema_try_unfold)
qed

lemma create_structured_urls:
  "vision_urls (fst (create_structured en r req tr)) = vision_urls tr"
proof -
  obtain calls where
    "fst (create_structured en r req tr) = tr @ calls" "\<forall>e \<in> set calls. is_BrainCall e"
    using structured_attempts_trace [of en r _ tr] by (auto simp: create_structured_def)
  then show ?thesis by (simp add: vision_urls_brain_calls)
qed

lemma generate_schema_try_urls:
  "vision_urls (fst (generate_schema_try en file)) = [data_url_of (b64encode (file_bytes file))]"
proof -
  let ?v = "vision_request en (data_url_of (b64encode (file_bytes file)))"
  have "vision_urls (fst (create_structured en 2 q [Log LogStage1, VisionCall ?v, Log LogStage2]))
          = [data_url_of (b64encode (file_bytes file))]" for q
    by (simp add: create_structured_urls vision_request_urls)
  then have "vision_urls tr2 = [data_url_of (b64encode (file_bytes file))]"
    if "create_structured en 2 q [Log LogStage1, VisionCall ?v, Log LogStage2] = (tr2, r)" for q tr2 r
    using that by (metis fst_conv)
  then show ?thesis
    by (auto simp: generate_schema_try_unfold vision_request_urls
        split: sum.splits list.splits prod.splits)
qed

lemma generate_schema_urls:
  assumes "accepted file"
  shows "vision_urls (fst (generate_schema en file)) = [data_url_of (b64encode (file_bytes file))]"
  using assms generate_schema_try_urls [of en "file"]
  by (cases "generate_schema_try en file") (auto simp: generate_schema_def split: sum.splits)

lemma validate_completion_typed:
  assumes "validate_completion out = Inr s"
  shows "(\<forall>t \<in> set (tables s). \<forall>c \<in> set (columns t). col_type c \<in> set SQLiteType) \<and>
         (\<forall>r \<in> set (relationships s). rel_type r \<in> set RelationshipType)"
  using assms schema_output_typed
  by (cases out) (simp_all add: validate_completion_def)

lemmas example_defs =
  example_env_def describing_vision_def failing_vision_def silent_vision_def invalid_brain_def
  users_brain_def
  failing_brain_def png_upload_def jpeg_upload_def text_upload_def

lemma validate_empty_object:
  "validate_completion (Json (JObj [])) = Inl ([Key ''tables''], Missing)"
  by (simp add: validate_completion_def validate_DatabaseSchema_def required_def)

lemma validate_users_completion:
  "validate_completion (Json (JObj users_schema_json)) = Inr users_schema"
  by (simp add: validate_completion_def validate_users_schema)

lemma structured_attempts_2:
  "structured_attempts en 2 req tr = structured_attempts en (Suc (Suc 0)) req tr"
  by (simp add: numeral_2_eq_2)

lemmas pipeline_eval =
  generate_schema_def accepted_def allowed_content_types_def generate_schema_try_unfold
  create_structured_def example_defs structured_attempts_2

lemma eval_invalid:
  "snd (generate_schema (example_env describing_vision invalid_brain) png_upload) =
     HTTPException 500 ''Processing failed: validation failed''"
  by (simp add: pipeline_eval validate_empty_object)

lemma eval_invalid_calls:
  "brain_calls (fst (generate_schema (example_env describing_vision invalid_brain) png_upload)) = 3"
  by (simp add: pipeline_eval validate_empty_object)

lemma eval_failing_vision:
  "generate_schema (example_env failing_vision users_brain) png_upload =
     ([Log LogStage1,
       VisionCall (vision_request (example_env failing_vision users_brain)
                     (data_url_of (b64encode dark_png))),
       Log (LogError ''Connection error.'')],
      HTTPException 500 ''Processing failed: Connection error.'')"
  by (simp add: pipeline_eval)

lemma eval_failing_brain:
  "snd (generate_schema (example_env describing_vision failing_brain) png_upload) =
     HTTPException 500 ''Processing failed: Connection error.''"
  by (simp add: pipeline_eval)

lemma eval_users:
  "snd (generate_schema (example_env describing_vision users_brain) png_upload) = Ok users_schema"
  by (simp add: pipeline_eval validate_users_completion)

lemma eval_users_trace:
  "map is_BrainCall (fst (generate_schema (example_env describing_vision users_brain) png_upload)) =
     [False, False, False, True, False]"
  by (simp add: pipeline_eval validate_users_completion)

lemma eval_text:
  "generate_schema en text_upload = ([], HTTPException 400 ''Invalid file type.'')"
  by (simp add: pipeline_eval)

lemma eval_jpeg:
  "vision_urls (fst (generate_schema (example_env describing_vision users_brain) jpeg_upload)) =
     [''data:image/png;base64,/9j/4A=='']"
  by (simp add: pipeline_eval validate_users_completion vision_request_urls data_url_of_def
      b64_char_def b64_alphabet_def)

text \<open>
  Claim C1. A request reaches the text-generation model at most 3 times. When the upload is
  accepted, the vision model answers with a choice, and the text-generation double answers
  every invocation with an output that fails validation, the double is invoked exactly 3
  times, the body of the handler ends in validation exhaustion, and the response is the
  status 500 with the message of that failure. The handler is a total function, so it
  always returns.
\<close>

theorem extraction_attempts_bounded:
  "brain_calls (fst (generate_schema en file)) \<le> 3 \<and>
   (accepted file \<and> (\<forall>req. \<exists>d ds. vision_model en req = Inr (d # ds)) \<and>
    (\<forall>k req. \<exists>out ve. brain_model en k req = Inr out \<and> validate_completion out = Inl ve) \<longrightarrow>
      brain_calls (fst (generate_schema en file)) = 3 \<and>
      (\<exists>m. snd (generate_schema_try en file) = Inl (ValidationExhaustion m) \<and>
           snd (generate_schema en file) = HTTPException 500 (''Processing failed: '' @ m)))"
proof -
  have bound: "brain_calls (fst (generate_schema en file)) \<le> 3"
    using generate_schema_try_calls_le [of en "file"] by (simp add: generate_schema_calls)
  have exhausted: "brain_calls (fst (generate_schema en file)) = 3 \<and>
      (\<exists>m. snd (generate_schema_try en file) = Inl (ValidationExhaustion m) \<and>
           snd (generate_schema en file) = HTTPException 500 (''Processing failed: '' @ m))"
    if acc: "accepted file"
      and vis: "\<forall>req. \<exists>d ds. vision_model en req = Inr (d # ds)"
      and inv: "\<forall>k req. \<exists>out ve. brain_model en k req = Inr out \<and> validate_completion out = Inl ve"
  proof -
    from vis obtain d ds where
      "vision_model en (vision_request en (data_url_of (b64encode (file_bytes file)))) = Inr (d # ds)"
      by blast
    from generate_schema_try_exhausted [OF this inv] obtain m where
      c: "brain_calls (fst (generate_schema_try en file)) = 3" and
      e: "snd (generate_schema_try en file) = Inl (ValidationExhaustion m)"
      by blast
    from generate_schema_failure [OF acc e]
    have "snd (generate_schema en file) = HTTPException 500 (''Processing failed: '' @ m)"
      by simp
    with c e acc show ?thesis by (simp add: generate_schema_calls)
  qed
  from bound exhausted show ?thesis by blast
qed

theorem extraction_attempts_bounded_witness:
  "accepted png_upload \<and>
   validate_completion (Json (JObj [])) = Inl ([Key ''tables''], Missing) \<and>
   brain_calls (fst (generate_schema (example_env describing_vision invalid_brain) png_upload)) = 3 \<and>
   snd (generate_schema (example_env describing_vision invalid_brain) png_upload) =
     HTTPException 500 ''Processing failed: validation failed''"
proof -
  have acc: "accepted png_upload"
    by (simp add: accepted_def allowed_content_types_def png_upload_def)
  have vis: "\<forall>req. \<exists>d ds. vision_model (example_env describing_vision invalid_brain) req = Inr (d # ds)"
    by (simp add: example_env_def describing_vision_def)
  have inv: "\<forall>k req. \<exists>out ve. brain_model (example_env describing_vision invalid_brain) k req = Inr out \<and>
      validate_completion out = Inl ve"
    by (simp add: example_env_def invalid_brain_def validate_empty_object)
  from extraction_attempts_bounded [of "example_env describing_vision invalid_brain" png_upload]
    acc vis inv
  have "brain_calls (fst (generate_schema (example_env describing_vision invalid_brain) png_upload)) = 3"
    by blast
  with acc validate_empty_object eval_invalid show ?thesis by simp
qed

text \<open>
  Claim C5. An upload whose content type is not exactly \<open>image/jpeg\<close>, \<open>image/png\<close> or
  \<open>image/webp\<close> (a missing content type included) is answered with the status 400, and
  the request has no event at all: no vision call, no text-generation call, no log line
  of a stage.
\<close>

theorem other_content_types_rejected:
  "content_type file \<notin> {Some ''image/jpeg'', Some ''image/png'', Some ''image/webp''} \<longrightarrow>
     generate_schema en file = ([], HTTPException 400 ''Invalid file type.'') \<and>
     vision_calls (fst (generate_schema en file)) = 0 \<and>
     brain_calls (fst (generate_schema en file)) = 0"
  by (simp add: generate_schema_def accepted_iff)

theorem other_content_types_rejected_witness:
  "content_type text_upload \<notin> {Some ''image/jpeg'', Some ''image/png'', Some ''image/webp''} \<and>
   generate_schema (example_env describing_vision users_brain) text_upload =
     ([], HTTPException 400 ''Invalid file type.'') \<and>
   vision_calls (fst (generate_schema (example_env describing_vision users_brain) text_upload)) = 0 \<and>
   brain_calls (fst (generate_schema (example_env describing_vision users_brain) text_upload)) = 0"
proof -
  have "content_type text_upload \<notin> {Some ''image/jpeg'', Some ''image/png'', Some ''image/webp''}"
    by (simp add: text_upload_def)
  with other_content_types_rejected [of text_upload "example_env describing_vision users_brain"]
  show ?thesis by blast
qed

text \<open>
  Claim C6. For an accepted upload the response is either a schema that is the validated
  form of a model output, with every type a member of its enumeration, or the status 500
  with the message \<open>Processing failed: \<close> followed by the text of the exception that ended
  the body of the handler. In particular a failing vision call, a vision answer without
  choices, and a failing structured-generation stage (validation exhaustion included) each
  give the status 500.
\<close>

theorem failures_become_500:
  "accepted file \<longrightarrow>
     ((\<exists>s. snd (generate_schema en file) = Ok s \<and> (\<exists>out. validate_completion out = Inr s) \<and>
           (\<forall>t \<in> set (tables s). \<forall>c \<in> set (columns t). col_type c \<in> set SQLiteType) \<and>
           (\<forall>r \<in> set (relationships s). rel_type r \<in> set RelationshipType)) \<or>
      (\<exists>e. snd (generate_schema_try en file) = Inl e \<and>
           snd (generate_schema en file) = HTTPException 500 (''Processing failed: '' @ exn_str e))) \<and>
     (vision_model en (vision_request en (data_url_of (b64encode (file_bytes file)))) = Inl e1 \<longrightarrow>
        snd (generate_schema en file) = HTTPException 500 (''Processing failed: '' @ exn_str e1)) \<and>
     (vision_model en (vision_request en (data_url_of (b64encode (file_bytes file)))) = Inr [] \<longrightarrow>
        snd (generate_schema en file) =
          HTTPException 500 ''Processing failed: list index out of range'') \<and>
     (vision_model en (vision_request en (data_url_of (b64encode (file_bytes file)))) = Inr (d # ds) \<and>
      snd (create_structured en 2 (brain_request en d)
             [Log LogStage1,
              VisionCall (vision_request en (data_url_of (b64encode (file_bytes file)))),
              Log LogStage2]) = Inl e2 \<longrightarrow>
        snd (generate_schema en file) = HTTPException 500 (''Processing failed: '' @ exn_str e2))"
proof
  assume acc: "accepted file"
  let ?v = "vision_request en (data_url_of (b64encode (file_bytes file)))"
  have a: "(\<exists>s. snd (generate_schema en file) = Ok s \<and> (\<exists>out. validate_completion out = Inr s) \<and>
           (\<forall>t \<in> set (tables s). \<forall>c \<in> set (columns t). col_type c \<in> set SQLiteType) \<and>
           (\<forall>r \<in> set (relationships s). rel_type r \<in> set RelationshipType)) \<or>
      (\<exists>e. snd (generate_schema_try en file) = Inl e \<and>
           snd (generate_schema en file) = HTTPException 500 (''Processing failed: '' @ exn_str e))"
  proof (cases "snd (generate_schema_try en file)")
    case (Inl e)
    with generate_schema_failure [OF acc Inl] show ?thesis by blast
  next
    case (Inr s)
    from generate_schema_try_valid [OF Inr] obtain out where out: "validate_completion out = Inr s"
      by blast
    from generate_schema_success [OF acc Inr] out validate_completion_typed [OF out]
    show ?thesis by blast
  qed
  have b: "snd (generate_schema en file) = HTTPException 500 (''Processing failed: '' @ exn_str e1)"
    if "vision_model en ?v = Inl e1"
  proof -
    from that have "snd (generate_schema_try en file) = Inl e1"
      by (simp add: generate_schema_try_unfold)
    from generate_schema_failure [OF acc this] show ?thesis .
  qed
  have c: "snd (generate_schema en file) =
      HTTPException 500 ''Processing failed: list index out of range''"
    if "vision_model en ?v = Inr []"
  proof -
    from that have "snd (generate_schema_try en file) = Inl (IndexError ''list index out of range'')"
      by (simp add: generate_schema_try_unfold)
    from generate_schema_failure [OF acc this] show ?thesis by simp
  qed
  have d: "snd (generate_schema en file) = HTTPException 500 (''Processing failed: '' @ exn_str e2)"
    if "vision_model en ?v = Inr (d # ds)"
      and "snd (create_structured en 2 (brain_request en d)
                  [Log LogStage1, VisionCall ?v, Log LogStage2]) = Inl e2"
  proof -
    from that have "snd (generate_schema_try en file) = Inl e2"
      by (cases "create_structured en 2 (brain_request en d)
                   [Log LogStage1, VisionCall ?v, Log LogStage2]")
         (simp add: generate_schema_try_unfold)
    from generate_schema_failure [OF acc this] show ?thesis .
  qed
  from a b c d show "((\<exists>s. snd (generate_schema en file) = Ok s \<and> (\<exists>out. validate_completion out = Inr s) \<and>
           (\<forall>t \<in> set (tables s). \<forall>c \<in> set (columns t). col_type c \<in> set SQLiteType) \<and>
           (\<forall>r \<in> set (relationships s). rel_type r \<in> set RelationshipType)) \<or>
      (\<exists>e. snd (generate_schema_try en file) = Inl e \<and>
           snd (generate_schema en file) = HTTPException 500 (''Processing failed: '' @ exn_str e))) \<and>
     (vision_model en ?v = Inl e1 \<longrightarrow>
        snd (generate_schema en file) = HTTPException 500 (''Processing failed: '' @ exn_str e1)) \<and>
     (vision_model en ?v = Inr [] \<longrightarrow>
        snd (generate_schema en file) =
          HTTPException 500 ''Processing failed: list index out of range'') \<and>
     (vision_model en ?v = Inr (d # ds) \<and>
      snd (create_structured en 2 (brain_request en d)
             [Log LogStage1, VisionCall ?v, Log LogStage2]) = Inl e2 \<longrightarrow>
        snd (generate_schema en file) = HTTPException 500 (''Processing failed: '' @ exn_str e2))"
    by blast
qed

theorem failures_become_500_witness:
  "accepted png_upload \<and>
   snd (generate_schema (example_env failing_vision users_brain) png_upload) =
     HTTPException 500 ''Processing failed: Connection error.'' \<and>
   snd (generate_schema (example_env silent_vision users_brain) png_upload) =
     HTTPException 500 ''Processing failed: list index out of range'' \<and>
   snd (generate_schema (example_env describing_vision invalid_brain) png_upload) =
     HTTPException 500 ''Processing failed: validation failed'' \<and>
   snd (generate_schema (example_env describing_vision failing_brain) png_upload) =
     HTTPException 500 ''Processing failed: Connection error.'' \<and>
   snd (generate_schema (example_env describing_vision users_brain) png_upload) = Ok users_schema \<and>
   validate_completion (Json (JObj users_schema_json)) = Inr users_schema"
proof -
  let ?u = "data_url_of (b64encode (file_bytes png_upload))"
  let ?d = "Some ''users table with id (uuid, pk) and email (text)''"
  have acc: "accepted png_upload"
    by (simp add: accepted_def allowed_content_types_def png_upload_def)
  have 1: "snd (generate_schema (example_env failing_vision users_brain) png_upload) =
      HTTPException 500 ''Processing failed: Connection error.''"
  proof -
    let ?en = "example_env failing_vision users_brain"
    have "vision_model ?en (vision_request ?en ?u) = Inl (Raised ''APIConnectionError'' ''Connection error.'')"
      by (simp add: example_env_def failing_vision_def)
    with failures_become_500
      [of png_upload ?en "Raised ''APIConnectionError'' ''Connection error.''"] acc
    show ?thesis by simp
  qed
  have 2: "snd (generate_schema (example_env silent_vision users_brain) png_upload) =
      HTTPException 500 ''Processing failed: list index out of range''"
  proof -
    let ?en = "example_env silent_vision users_brain"
    have "vision_model ?en (vision_request ?en ?u) = Inr []"
      by (simp add: example_env_def silent_vision_def)
    with failures_become_500 [of png_upload ?en] acc
    show ?thesis by simp
  qed
  have 3: "snd (generate_schema (example_env describing_vision invalid_brain) png_upload) =
      HTTPException 500 ''Processing failed: validation failed''"
  proof -
    let ?en = "example_env describing_vision invalid_brain"
    have v: "vision_model ?en (vision_request ?en ?u) = Inr [?d]"
      by (simp add: example_env_def describing_vision_def)
    have "snd (create_structured ?en 2 (brain_request ?en ?d)
                 [Log LogStage1, VisionCall (vision_request ?en ?u), Log LogStage2]) =
          Inl (ValidationExhaustion ''validation failed'')"
      by (simp add: create_structured_def structured_attempts_2 example_env_def invalid_brain_def
          validate_empty_object)
    with failures_become_500
      [of png_upload ?en _ ?d "[]" "ValidationExhaustion ''validation failed''"] acc v
    show ?thesis by simp
  qed
  have 4: "snd (generate_schema (example_env describing_vision failing_brain) png_upload) =
      HTTPException 500 ''Processing failed: Connection error.''"
  proof -
    let ?en = "example_env describing_vision failing_brain"
    have v: "vision_model ?en (vision_request ?en ?u) = Inr [?d]"
      by (simp add: example_env_def describing_vision_def)
    have "snd (create_structured ?en 2 (brain_request ?en ?d)
                 [Log LogStage1, VisionCall (vision_request ?en ?u), Log LogStage2]) =
          Inl (Raised ''APIConnectionError'' ''Connection error.'')"
      by (simp add: create_structured_def structured_attempts_2 example_env_def failing_brain_def)
    with failures_become_500
      [of png_upload ?en _ ?d "[]" "Raised ''APIConnectionError'' ''Connection error.''"] acc v
    show ?thesis by simp
  qed
  have 5: "(\<forall>t \<in> set (tables users_schema). \<forall>c \<in> set (columns t). col_type c \<in> set SQLiteType) \<and>
      (\<forall>r \<in> set (relationships users_schema). rel_type r \<in> set RelationshipType)"
    using failures_become_500 [of png_upload "example_env describing_vision users_brain"]
      acc eval_users
    by auto
  from acc 1 2 3 4 5 eval_users validate_users_completion show ?thesis by blast
qed

text \<open>
  Claim C9. For every accepted upload, whatever its content type, the request makes
  vision calls with exactly one image URL, and that URL is \<open>data:image/png;base64,\<close>
  followed by the base64 encoding of the uploaded bytes as they are.
\<close>

theorem data_url_declares_png:
  "content_type file \<in> {Some ''image/jpeg'', Some ''image/png'', Some ''image/webp''} \<longrightarrow>
     vision_urls (fst (generate_schema en file)) =
       [''data:image/png;base64,'' @ b64encode (file_bytes file)]"
  using generate_schema_urls [of "file" en] by (simp add: accepted_iff data_url_of_def)

theorem data_url_declares_png_witness:
  "content_type jpeg_upload \<in> {Some ''image/jpeg'', Some ''image/png'', Some ''image/webp''} \<and>
   file_bytes jpeg_upload = [0xFF, 0xD8, 0xFF, 0xE0] \<and>
   vision_urls (fst (generate_schema (example_env describing_vision users_brain) jpeg_upload)) =
     [''data:image/png;base64,/9j/4A=='']"
proof -
  have ct: "content_type jpeg_upload \<in> {Some ''image/jpeg'', Some ''image/png'', Some ''image/webp''}"
    by (simp add: jpeg_upload_def)
  have enc: "b64encode (file_bytes jpeg_upload) = ''/9j/4A==''"
    by (simp add: jpeg_upload_def b64_char_def b64_alphabet_def)
  from data_url_declares_png [of jpeg_upload "example_env describing_vision users_brain"] ct
  have "vision_urls (fst (generate_schema (example_env describing_vision users_brain) jpeg_upload)) =
      [''data:image/png;base64,'' @ b64encode (file_bytes jpeg_upload)]"
    by blast
  with ct enc show ?thesis by (simp add: jpeg_upload_def)
qed

end
